theory Spec2Isabelle
  imports Complex_Main "HOL-Library.Sublist"
begin

section \<open>DiabetesDashboard: record store, HTTP handlers and meal-plan adapter\<close>

text \<open>
  The development embeds \<^verbatim>\<open>server/storage.ts\<close> (class MemStorage), the handlers of
  \<^verbatim>\<open>server/routes.ts\<close> for registration, glucose readings, meal plans and notes, the insert schemas of
  \<^verbatim>\<open>shared/schema.ts\<close> and the generation adapter (\<^verbatim>\<open>generateMealPlan\<close>,
  \<^verbatim>\<open>getSampleMealPlan\<close>).

  Conventions. A JavaScript number that holds an identifier, a glucose value or a
  count is an \<open>int\<close>. A \<^verbatim>\<open>Date\<close> is its \<^verbatim>\<open>getTime()\<close> value, an \<open>int\<close> of
  milliseconds. A property that may be \<^verbatim>\<open>undefined\<close> or \<^verbatim>\<open>null\<close> is an \<open>option\<close>.
  Strings are \<open>string\<close>, a character beyond ASCII being the bytes of its UTF-8
  encoding; \<^verbatim>\<open>toLowerCase\<close> is modelled on the ASCII letters.
  Every method of MemStorage is \<^verbatim>\<open>async\<close>. A lookup, a create and a delete contain
  no suspension point, so the call runs to completion; an update awaits its own lookup
  and then stores, and the model takes the two as one step, as a handler takes the
  store calls of one request. A method is a function from the store to a result and the
  next store.
\<close>

subsection \<open>Strings\<close>

definition toLowerCase_char :: "char \<Rightarrow> char" where
  "toLowerCase_char c =
     (let n = (of_char c :: nat) in if 65 \<le> n \<and> n \<le> 90 then char_of (n + 32) else c)"

definition toLowerCase :: "string \<Rightarrow> string" where
  "toLowerCase s = map toLowerCase_char s"

text \<open>
  \<^verbatim>\<open>s.length\<close> counts UTF-16 code units. In well-formed UTF-8 a character is one lead
  byte and its continuation bytes (\<open>0x80\<close> to \<open>0xBF\<close>); a character of four bytes is
  beyond the basic plane and takes two code units, every other character takes one.
\<close>

definition utf16_units :: "char \<Rightarrow> nat" where
  "utf16_units c =
     (let n = (of_char c :: nat)
      in if n < 128 then 1 else if n < 192 then 0 else if n < 240 then 1 else 2)"

definition js_length :: "string \<Rightarrow> nat" where
  "js_length s = sum_list (map utf16_units s)"

text \<open>\<^verbatim>\<open>s.includes(t)\<close>: \<open>t\<close> occurs in \<open>s\<close> as a contiguous run of characters.\<close>

definition includes_str :: "string \<Rightarrow> string \<Rightarrow> bool" where
  "includes_str s t = sublist t s"

subsection \<open>JavaScript Map, Array.prototype.sort and slice\<close>

text \<open>
  A \<^verbatim>\<open>Map\<close> is the list of its entries in insertion order: \<^verbatim>\<open>set\<close> on a present key
  replaces the value where the entry stands, on a new key it appends; \<^verbatim>\<open>delete\<close> tells
  whether the key was present; \<^verbatim>\<open>values()\<close> iterates in insertion order.
\<close>

type_synonym ('k, 'v) jsmap = "('k \<times> 'v) list"

definition map_get :: "('k, 'v) jsmap \<Rightarrow> 'k \<Rightarrow> 'v option" where
  "map_get m k = map_of m k"

fun map_set :: "'k \<Rightarrow> 'v \<Rightarrow> ('k, 'v) jsmap \<Rightarrow> ('k, 'v) jsmap" where
  "map_set k v [] = [(k, v)]"
| "map_set k v (p # m) = (if fst p = k then (k, v) # m else p # map_set k v m)"

definition map_delete :: "'k \<Rightarrow> ('k, 'v) jsmap \<Rightarrow> bool \<times> ('k, 'v) jsmap" where
  "map_delete k m = (k \<in> set (map fst m), filter (\<lambda>p. fst p \<noteq> k) m)"

definition map_values :: "('k, 'v) jsmap \<Rightarrow> 'v list" where
  "map_values m = map snd m"

text \<open>
  \<^verbatim>\<open>sort(cmp)\<close> is stable; the model is the stable insertion sort for the comparator.
  For a consistent comparator every stable sort gives this list. The comparators below
  return NaN when a timestamp is missing, which \<^verbatim>\<open>sort\<close> reads as 0; the order is then
  left to the engine and the model fixes one permutation.
\<close>

fun insert_by :: "('a \<Rightarrow> 'a \<Rightarrow> int) \<Rightarrow> 'a \<Rightarrow> 'a list \<Rightarrow> 'a list" where
  "insert_by cmp x [] = [x]"
| "insert_by cmp x (y # ys) = (if cmp x y \<le> 0 then x # y # ys else y # insert_by cmp x ys)"

definition sort_by :: "('a \<Rightarrow> 'a \<Rightarrow> int) \<Rightarrow> 'a list \<Rightarrow> 'a list" where
  "sort_by cmp xs = foldr (insert_by cmp) xs []"

type_synonym timestamp = int

text \<open>\<^verbatim>\<open>new Date(b).getTime() - new Date(a).getTime()\<close>, NaN read as 0.\<close>

definition newest_first :: "timestamp option \<Rightarrow> timestamp option \<Rightarrow> int" where
  "newest_first a b = (case (a, b) of (Some ta, Some tb) \<Rightarrow> tb - ta | _ \<Rightarrow> 0)"

text \<open>
  \<^verbatim>\<open>limit ? xs.slice(0, limit) : xs\<close>: a missing or zero limit keeps everything, a
  negative end counts from the end of the array.
\<close>

definition slice_limit :: "int option \<Rightarrow> 'a list \<Rightarrow> 'a list" where
  "slice_limit limit xs =
     (case limit of
        None \<Rightarrow> xs
      | Some n \<Rightarrow>
          if n = 0 then xs
          else if 0 < n then take (nat n) xs
          else take (nat (int (length xs) + n)) xs)"

subsection \<open>Data model (shared/schema.ts)\<close>

record User =
  u_id :: int
  u_username :: string
  u_email :: string
  u_password :: string
  u_name :: "string option"
  u_allergies :: "string list option"

record InsertUser =
  iu_username :: string
  iu_email :: string
  iu_password :: string
  iu_name :: "string option"
  iu_allergies :: "string list option"

text \<open>A \<^verbatim>\<open>Partial<InsertUser>\<close>: \<open>None\<close> is a key that the update does not have.\<close>

record PartialUser =
  pu_username :: "string option"
  pu_email :: "string option"
  pu_password :: "string option"
  pu_name :: "string option option"
  pu_allergies :: "string list option option"

text \<open>
  The \<^verbatim>\<open>timestamp\<close> of a stored reading or note is an option: the objects that
  \<^verbatim>\<open>createGlucoseReading\<close> and \<^verbatim>\<open>createNote\<close> build have the property only when the
  input has it.
\<close>

record GlucoseReading =
  gr_id :: int
  gr_userId :: int
  gr_value :: int
  gr_timestamp :: "timestamp option"
  gr_type :: string
  gr_note :: "string option"

record InsertGlucoseReading =
  ig_userId :: int
  ig_value :: int
  ig_timestamp :: "timestamp option"
  ig_type :: string
  ig_note :: "string option"

record PartialGlucoseReading =
  pg_userId :: "int option"
  pg_value :: "int option"
  pg_timestamp :: "timestamp option"
  pg_type :: "string option"
  pg_note :: "string option option"

record MealPlan =
  mp_id :: int
  mp_userId :: int
  mp_name :: string
  mp_description :: "string option"
  mp_mealType :: string
  mp_imageUrl :: "string option"
  mp_carbs :: "int option"
  mp_servings :: "int option"
  mp_prepTime :: "int option"
  mp_tags :: "string list option"
  mp_ingredients :: "string list option"
  mp_instructions :: "string list option"
  mp_createdAt :: timestamp

text \<open>
  \<open>im_createdAt\<close> is the property that \<^verbatim>\<open>createMealPlan\<close> reads as
  \<^verbatim>\<open>plan.createdAt\<close>; insertMealPlanSchema does not pick it, so a parsed request
  body never has it.
\<close>

record InsertMealPlan =
  im_userId :: int
  im_name :: string
  im_description :: "string option"
  im_mealType :: string
  im_imageUrl :: "string option"
  im_carbs :: "int option"
  im_servings :: "int option"
  im_prepTime :: "int option"
  im_tags :: "string list option"
  im_ingredients :: "string list option"
  im_instructions :: "string list option"
  im_createdAt :: "timestamp option"

record PartialMealPlan =
  pm_userId :: "int option"
  pm_name :: "string option"
  pm_description :: "string option option"
  pm_mealType :: "string option"
  pm_imageUrl :: "string option option"
  pm_carbs :: "int option option"
  pm_servings :: "int option option"
  pm_prepTime :: "int option option"
  pm_tags :: "string list option option"
  pm_ingredients :: "string list option option"
  pm_instructions :: "string list option option"

record Note =
  n_id :: int
  n_userId :: int
  n_title :: string
  n_content :: string
  n_timestamp :: "timestamp option"
  n_category :: "string option"

record InsertNote =
  in_userId :: int
  in_title :: string
  in_content :: string
  in_timestamp :: "timestamp option"
  in_category :: "string option"

record PartialNote =
  pn_userId :: "int option"
  pn_title :: "string option"
  pn_content :: "string option"
  pn_timestamp :: "timestamp option"
  pn_category :: "string option option"

subsection \<open>MemStorage (server/storage.ts)\<close>

record MemStorage =
  users :: "(int, User) jsmap"
  glucoseReadings :: "(int, GlucoseReading) jsmap"
  mealPlans :: "(int, MealPlan) jsmap"
  "notes" :: "(int, Note) jsmap"
  userIdCounter :: int
  glucoseIdCounter :: int
  mealPlanIdCounter :: int
  noteIdCounter :: int

text \<open>\<^verbatim>\<open>{ ...existing, ...update }\<close>, one property at a time.\<close>

definition spread :: "'a \<Rightarrow> 'a option \<Rightarrow> 'a" where
  "spread old upd = (case upd of None \<Rightarrow> old | Some v \<Rightarrow> v)"

subsubsection \<open>Glucose readings\<close>

definition getGlucoseReadings :: "MemStorage \<Rightarrow> int \<Rightarrow> int option \<Rightarrow> GlucoseReading list" where
  "getGlucoseReadings s userId limit =
     slice_limit limit
       (sort_by (\<lambda>a b. newest_first (gr_timestamp a) (gr_timestamp b))
          (filter (\<lambda>reading. gr_userId reading = userId) (map_values (glucoseReadings s))))"

text \<open>
  \<^verbatim>\<open>new Date(reading.timestamp) >= startDate\<close> is false when the timestamp is missing
  (the comparison is with NaN).
\<close>

definition getGlucoseReadingsByDateRange ::
  "MemStorage \<Rightarrow> int \<Rightarrow> timestamp \<Rightarrow> timestamp \<Rightarrow> GlucoseReading list" where
  "getGlucoseReadingsByDateRange s userId startDate endDate =
     sort_by (\<lambda>a b. newest_first (gr_timestamp a) (gr_timestamp b))
       (filter (\<lambda>reading. gr_userId reading = userId \<and>
                  (case gr_timestamp reading of
                     None \<Rightarrow> False
                   | Some t \<Rightarrow> startDate \<le> t \<and> t \<le> endDate))
          (map_values (glucoseReadings s)))"

definition getGlucoseReading :: "MemStorage \<Rightarrow> int \<Rightarrow> GlucoseReading option" where
  "getGlucoseReading s ident = map_get (glucoseReadings s) ident"

definition createGlucoseReading ::
  "InsertGlucoseReading \<Rightarrow> MemStorage \<Rightarrow> GlucoseReading \<times> MemStorage" where
  "createGlucoseReading reading s =
     (let ident = glucoseIdCounter s;
          newReading = \<lparr>gr_id = ident, gr_userId = ig_userId reading,
                        gr_value = ig_value reading, gr_timestamp = ig_timestamp reading,
                        gr_type = ig_type reading, gr_note = ig_note reading\<rparr>
      in (newReading,
          s\<lparr>glucoseIdCounter := ident + 1,
            glucoseReadings := map_set ident newReading (glucoseReadings s)\<rparr>))"

definition updateGlucoseReading ::
  "int \<Rightarrow> PartialGlucoseReading \<Rightarrow> MemStorage \<Rightarrow> GlucoseReading option \<times> MemStorage" where
  "updateGlucoseReading ident update s =
     (case getGlucoseReading s ident of
        None \<Rightarrow> (None, s)
      | Some existing \<Rightarrow>
          (let updated = \<lparr>gr_id = gr_id existing,
                          gr_userId = spread (gr_userId existing) (pg_userId update),
                          gr_value = spread (gr_value existing) (pg_value update),
                          gr_timestamp = (case pg_timestamp update of
                                            None \<Rightarrow> gr_timestamp existing
                                          | Some t \<Rightarrow> Some t),
                          gr_type = spread (gr_type existing) (pg_type update),
                          gr_note = spread (gr_note existing) (pg_note update)\<rparr>
           in (Some updated, s\<lparr>glucoseReadings := map_set ident updated (glucoseReadings s)\<rparr>)))"

definition deleteGlucoseReading :: "int \<Rightarrow> MemStorage \<Rightarrow> bool \<times> MemStorage" where
  "deleteGlucoseReading ident s =
     (let (found, m) = map_delete ident (glucoseReadings s)
      in (found, s\<lparr>glucoseReadings := m\<rparr>))"

subsubsection \<open>Meal plans\<close>

definition getMealPlans :: "MemStorage \<Rightarrow> int \<Rightarrow> int option \<Rightarrow> MealPlan list" where
  "getMealPlans s userId limit =
     slice_limit limit
       (sort_by (\<lambda>a b. mp_createdAt b - mp_createdAt a)
          (filter (\<lambda>plan. mp_userId plan = userId) (map_values (mealPlans s))))"

definition getMealPlansByType :: "MemStorage \<Rightarrow> int \<Rightarrow> string \<Rightarrow> MealPlan list" where
  "getMealPlansByType s userId mealType =
     sort_by (\<lambda>a b. mp_createdAt b - mp_createdAt a)
       (filter (\<lambda>plan. mp_userId plan = userId \<and> mp_mealType plan = mealType)
          (map_values (mealPlans s)))"

definition getMealPlan :: "MemStorage \<Rightarrow> int \<Rightarrow> MealPlan option" where
  "getMealPlan s ident = map_get (mealPlans s) ident"

text \<open>\<open>now\<close> is the value of \<^verbatim>\<open>new Date()\<close> at the call.\<close>

definition createMealPlan ::
  "timestamp \<Rightarrow> InsertMealPlan \<Rightarrow> MemStorage \<Rightarrow> MealPlan \<times> MemStorage" where
  "createMealPlan now plan s =
     (let ident = mealPlanIdCounter s;
          newPlan = \<lparr>mp_id = ident, mp_userId = im_userId plan, mp_name = im_name plan,
                     mp_description = im_description plan, mp_mealType = im_mealType plan,
                     mp_imageUrl = im_imageUrl plan, mp_carbs = im_carbs plan,
                     mp_servings = im_servings plan, mp_prepTime = im_prepTime plan,
                     mp_tags = im_tags plan, mp_ingredients = im_ingredients plan,
                     mp_instructions = im_instructions plan,
                     mp_createdAt = (case im_createdAt plan of Some d \<Rightarrow> d | None \<Rightarrow> now)\<rparr>
      in (newPlan,
          s\<lparr>mealPlanIdCounter := ident + 1,
            mealPlans := map_set ident newPlan (mealPlans s)\<rparr>))"

definition updateMealPlan ::
  "int \<Rightarrow> PartialMealPlan \<Rightarrow> MemStorage \<Rightarrow> MealPlan option \<times> MemStorage" where
  "updateMealPlan ident update s =
     (case getMealPlan s ident of
        None \<Rightarrow> (None, s)
      | Some existing \<Rightarrow>
          (let updated = \<lparr>mp_id = mp_id existing,
                          mp_userId = spread (mp_userId existing) (pm_userId update),
                          mp_name = spread (mp_name existing) (pm_name update),
                          mp_description = spread (mp_description existing) (pm_description update),
                          mp_mealType = spread (mp_mealType existing) (pm_mealType update),
                          mp_imageUrl = spread (mp_imageUrl existing) (pm_imageUrl update),
                          mp_carbs = spread (mp_carbs existing) (pm_carbs update),
                          mp_servings = spread (mp_servings existing) (pm_servings update),
                          mp_prepTime = spread (mp_prepTime existing) (pm_prepTime update),
                          mp_tags = spread (mp_tags existing) (pm_tags update),
                          mp_ingredients = spread (mp_ingredients existing) (pm_ingredients update),
                          mp_instructions =
                            spread (mp_instructions existing) (pm_instructions update),
                          mp_createdAt = mp_createdAt existing\<rparr>
           in (Some updated, s\<lparr>mealPlans := map_set ident updated (mealPlans s)\<rparr>)))"

definition deleteMealPlan :: "int \<Rightarrow> MemStorage \<Rightarrow> bool \<times> MemStorage" where
  "deleteMealPlan ident s =
     (let (found, m) = map_delete ident (mealPlans s)
      in (found, s\<lparr>mealPlans := m\<rparr>))"

subsubsection \<open>Notes\<close>

definition getNotes :: "MemStorage \<Rightarrow> int \<Rightarrow> int option \<Rightarrow> Note list" where
  "getNotes s userId limit =
     slice_limit limit
       (sort_by (\<lambda>a b. newest_first (n_timestamp a) (n_timestamp b))
          (filter (\<lambda>note. n_userId note = userId) (map_values (notes s))))"

definition getNote :: "MemStorage \<Rightarrow> int \<Rightarrow> Note option" where
  "getNote s ident = map_get (notes s) ident"

definition createNote :: "InsertNote \<Rightarrow> MemStorage \<Rightarrow> Note \<times> MemStorage" where
  "createNote note s =
     (let ident = noteIdCounter s;
          newNote = \<lparr>n_id = ident, n_userId = in_userId note, n_title = in_title note,
                     n_content = in_content note, n_timestamp = in_timestamp note,
                     n_category = in_category note\<rparr>
      in (newNote,
          s\<lparr>noteIdCounter := ident + 1, notes := map_set ident newNote (notes s)\<rparr>))"

definition updateNote :: "int \<Rightarrow> PartialNote \<Rightarrow> MemStorage \<Rightarrow> Note option \<times> MemStorage" where
  "updateNote ident update s =
     (case getNote s ident of
        None \<Rightarrow> (None, s)
      | Some existing \<Rightarrow>
          (let updated = \<lparr>n_id = n_id existing,
                          n_userId = spread (n_userId existing) (pn_userId update),
                          n_title = spread (n_title existing) (pn_title update),
                          n_content = spread (n_content existing) (pn_content update),
                          n_timestamp = (case pn_timestamp update of
                                           None \<Rightarrow> n_timestamp existing
                                         | Some t \<Rightarrow> Some t),
                          n_category = spread (n_category existing) (pn_category update)\<rparr>
           in (Some updated, s\<lparr>notes := map_set ident updated (notes s)\<rparr>)))"

definition deleteNote :: "int \<Rightarrow> MemStorage \<Rightarrow> bool \<times> MemStorage" where
  "deleteNote ident s =
     (let (found, m) = map_delete ident (notes s)
      in (found, s\<lparr>notes := m\<rparr>))"

subsubsection \<open>Users\<close>

definition getUser :: "MemStorage \<Rightarrow> int \<Rightarrow> User option" where
  "getUser s ident = map_get (users s) ident"

definition getUserByUsername :: "MemStorage \<Rightarrow> string \<Rightarrow> User option" where
  "getUserByUsername s username =
     find (\<lambda>user. toLowerCase (u_username user) = toLowerCase username) (map_values (users s))"

definition getUserByEmail :: "MemStorage \<Rightarrow> string \<Rightarrow> User option" where
  "getUserByEmail s email =
     find (\<lambda>user. toLowerCase (u_email user) = toLowerCase email) (map_values (users s))"

text \<open>
  \<^verbatim>\<open>d.setDate(d.getDate() - k)\<close> moves a date back by \<open>k\<close> calendar days; the model
  subtracts \<open>k\<close> times 24 hours (the two differ by an hour across a change of
  daylight-saving time in the server's zone).
\<close>

definition daysBefore :: "int \<Rightarrow> timestamp \<Rightarrow> timestamp" where
  "daysBefore k d = d - k * 86400000"

text \<open>
  The demo data that \<^verbatim>\<open>createUser\<close> adds for the user with id 1. The clock is read
  once (\<open>now\<close>); the two meal plans read it again in \<^verbatim>\<open>createMealPlan\<close>, within the
  same run, and are given the same instant.
\<close>

definition demoData :: "timestamp \<Rightarrow> int \<Rightarrow> MemStorage \<Rightarrow> MemStorage" where
  "demoData now ident s0 =
     (let yesterday = daysBefore 1 now;
          s1 = snd (createGlucoseReading
                 \<lparr>ig_userId = ident, ig_value = 118, ig_timestamp = Some now,
                  ig_type = ''before_breakfast'', ig_note = Some ''Normal reading''\<rparr> s0);
          s2 = snd (createGlucoseReading
                 \<lparr>ig_userId = ident, ig_value = 162, ig_timestamp = Some yesterday,
                  ig_type = ''after_lunch'', ig_note = Some ''Slightly elevated''\<rparr> s1);
          s3 = snd (createGlucoseReading
                 \<lparr>ig_userId = ident, ig_value = 105, ig_timestamp = Some yesterday,
                  ig_type = ''before_breakfast'', ig_note = Some ''Good fasting level''\<rparr> s2);
          twoDaysAgo = daysBefore 2 now;
          s4 = snd (createGlucoseReading
                 \<lparr>ig_userId = ident, ig_value = 183, ig_timestamp = Some twoDaysAgo,
                  ig_type = ''after_meal'', ig_note = Some ''High after eating pasta''\<rparr> s3);
          s5 = snd (createMealPlan now
                 \<lparr>im_userId = ident, im_name = ''Grilled Salmon with Vegetables'',
                  im_description = Some ''Perfect for dinner - high protein, low carb option with omega-3 fatty acids.'',
                  im_mealType = ''dinner'',
                  im_imageUrl = Some ''https://images.unsplash.com/photo-1539136788836-5699e78bfc75'',
                  im_carbs = Some 12, im_servings = Some 1, im_prepTime = Some 30,
                  im_tags = Some [''Low Carb'', ''High Protein''],
                  im_ingredients = Some [''Salmon fillet'', ''Asparagus'', ''Bell peppers'',
                                         ''Olive oil'', ''Lemon'', ''Salt'', ''Pepper''],
                  im_instructions = Some [''Preheat oven to 400'' @ [CHR 0xC2, CHR 0xB0] @ ''F'',
                                          ''Season salmon with salt, pepper and lemon'',
                                          ''Roast vegetables with olive oil'',
                                          ''Bake for 15-20 minutes''],
                  im_createdAt = None\<rparr> s4);
          s6 = snd (createMealPlan now
                 \<lparr>im_userId = ident, im_name = ''Greek Yogurt Breakfast Bowl'',
                  im_description = Some ''High protein breakfast with berries, nuts, and a touch of honey.'',
                  im_mealType = ''breakfast'',
                  im_imageUrl = Some ''https://images.unsplash.com/photo-1623428187969-5da2dcea5ebf'',
                  im_carbs = Some 18, im_servings = Some 1, im_prepTime = Some 10,
                  im_tags = Some [''Breakfast'', ''High Protein''],
                  im_ingredients = Some [''Greek yogurt'', ''Mixed berries'', ''Almonds'',
                                         ''Honey'', ''Cinnamon''],
                  im_instructions = Some [''Add yogurt to a bowl'',
                                          ''Top with berries, nuts and a drizzle of honey'',
                                          ''Sprinkle with cinnamon''],
                  im_createdAt = None\<rparr> s5);
          s7 = snd (createNote
                 \<lparr>in_userId = ident, in_title = ''Increased activity today'',
                  in_content = ''Went for a 30-minute walk after breakfast. Glucose readings were stable throughout the day.'',
                  in_timestamp = Some now, in_category = Some ''Exercise''\<rparr> s6);
          s8 = snd (createNote
                 \<lparr>in_userId = ident, in_title = ''High reading after dinner'',
                  in_content = ''Dinner included more carbs than usual. Will try to reduce portion size next time.'',
                  in_timestamp = Some yesterday, in_category = Some ''Diet''\<rparr> s7)
      in s8)"

definition createUser :: "timestamp \<Rightarrow> InsertUser \<Rightarrow> MemStorage \<Rightarrow> User \<times> MemStorage" where
  "createUser now insertUser s =
     (let ident = userIdCounter s;
          user = \<lparr>u_id = ident, u_username = iu_username insertUser,
                  u_email = iu_email insertUser, u_password = iu_password insertUser,
                  u_name = iu_name insertUser, u_allergies = iu_allergies insertUser\<rparr>;
          s1 = s\<lparr>userIdCounter := ident + 1, users := map_set ident user (users s)\<rparr>
      in (user, if ident = 1 then demoData now ident s1 else s1))"

definition updateUser :: "int \<Rightarrow> PartialUser \<Rightarrow> MemStorage \<Rightarrow> User option \<times> MemStorage" where
  "updateUser ident update s =
     (case getUser s ident of
        None \<Rightarrow> (None, s)
      | Some existing \<Rightarrow>
          (let updated = \<lparr>u_id = u_id existing,
                          u_username = spread (u_username existing) (pu_username update),
                          u_email = spread (u_email existing) (pu_email update),
                          u_password = spread (u_password existing) (pu_password update),
                          u_name = spread (u_name existing) (pu_name update),
                          u_allergies = spread (u_allergies existing) (pu_allergies update)\<rparr>
           in (Some updated, s\<lparr>users := map_set ident updated (users s)\<rparr>)))"

subsubsection \<open>The constructor\<close>

definition emptyStorage :: MemStorage where
  "emptyStorage =
     \<lparr>users = [], glucoseReadings = [], mealPlans = [], notes = [],
      userIdCounter = 1, glucoseIdCounter = 1, mealPlanIdCounter = 1, noteIdCounter = 1\<rparr>"

definition demoUser :: InsertUser where
  "demoUser =
     \<lparr>iu_username = ''demo'', iu_email = ''demo@example.com'', iu_password = ''password123'',
      iu_name = Some ''John Doe'', iu_allergies = Some [''peanuts'', ''shellfish'']\<rparr>"

text \<open>The store after \<^verbatim>\<open>new MemStorage()\<close>, run at time \<open>now\<close>.\<close>

definition newMemStorage :: "timestamp \<Rightarrow> MemStorage" where
  "newMemStorage now = snd (createUser now demoUser emptyStorage)"

subsection \<open>Store operations and reachable stores\<close>

text \<open>
  The mutating methods of MemStorage as operations; a creation that reads the clock
  carries the time of the call. A store is reachable when the constructor followed by
  finitely many operations produces it.
\<close>

datatype operation =
    CreateUser timestamp InsertUser
  | UpdateUser int PartialUser
  | CreateGlucoseReading InsertGlucoseReading
  | UpdateGlucoseReading int PartialGlucoseReading
  | DeleteGlucoseReading int
  | CreateMealPlan timestamp InsertMealPlan
  | UpdateMealPlan int PartialMealPlan
  | DeleteMealPlan int
  | CreateNote InsertNote
  | UpdateNote int PartialNote
  | DeleteNote int

fun perform :: "operation \<Rightarrow> MemStorage \<Rightarrow> MemStorage" where
  "perform (CreateUser now u) s = snd (createUser now u s)"
| "perform (UpdateUser i u) s = snd (updateUser i u s)"
| "perform (CreateGlucoseReading r) s = snd (createGlucoseReading r s)"
| "perform (UpdateGlucoseReading i r) s = snd (updateGlucoseReading i r s)"
| "perform (DeleteGlucoseReading i) s = snd (deleteGlucoseReading i s)"
| "perform (CreateMealPlan now p) s = snd (createMealPlan now p s)"
| "perform (UpdateMealPlan i p) s = snd (updateMealPlan i p s)"
| "perform (DeleteMealPlan i) s = snd (deleteMealPlan i s)"
| "perform (CreateNote n) s = snd (createNote n s)"
| "perform (UpdateNote i n) s = snd (updateNote i n s)"
| "perform (DeleteNote i) s = snd (deleteNote i s)"

definition run :: "operation list \<Rightarrow> MemStorage \<Rightarrow> MemStorage" where
  "run ops s = foldl (\<lambda>st oper. perform oper st) s ops"

inductive reachable :: "MemStorage \<Rightarrow> bool" where
  constructed: "reachable (newMemStorage now)"
| performed: "reachable s \<Longrightarrow> reachable (perform oper s)"

subsection \<open>Request validation (shared/schema.ts)\<close>

text \<open>
  A property of a JSON request body, seen from the schema that checks it: the key is
  missing, or it holds a value of the type the schema asks for, or it holds anything
  else. For a nullable column the value \<open>Given None\<close> is \<^verbatim>\<open>null\<close>.
\<close>

datatype 'a field = Absent | Ill | Given 'a

text \<open>
  The insert schemas are derived from the table declarations by
  \<^verbatim>\<open>createInsertSchema\<close>: a \<^verbatim>\<open>notNull\<close> column without default is required, a column
  with a default is optional, a nullable column is optional and accepts \<^verbatim>\<open>null\<close>;
  \<^verbatim>\<open>text\<close> asks for a string, \<^verbatim>\<open>timestamp\<close> for a Date, \<^verbatim>\<open>integer\<close> for a number of
  the column's 32-bit range. No schema declares a narrower range for a number.
  \<^verbatim>\<open>.partial()\<close> makes every key optional.
\<close>

definition integer_column :: "int \<Rightarrow> bool" where
  "integer_column v = (- 2147483648 \<le> v \<and> v \<le> 2147483647)"

definition required_ok :: "('a \<Rightarrow> bool) \<Rightarrow> 'a field \<Rightarrow> bool" where
  "required_ok ok f = (case f of Given v \<Rightarrow> ok v | _ \<Rightarrow> False)"

definition optional_ok :: "('a \<Rightarrow> bool) \<Rightarrow> 'a field \<Rightarrow> bool" where
  "optional_ok ok f = (case f of Absent \<Rightarrow> True | Ill \<Rightarrow> False | Given v \<Rightarrow> ok v)"

definition nullable :: "('a \<Rightarrow> bool) \<Rightarrow> 'a option \<Rightarrow> bool" where
  "nullable ok v = (case v of None \<Rightarrow> True | Some x \<Rightarrow> ok x)"

definition anything :: "'a \<Rightarrow> bool" where
  "anything v = True"

definition field_value :: "'a field \<Rightarrow> 'a option" where
  "field_value f = (case f of Given v \<Rightarrow> Some v | _ \<Rightarrow> None)"

text \<open>The value of an optional nullable key that was not given is left out.\<close>

definition nullable_value :: "'a option field \<Rightarrow> 'a option" where
  "nullable_value f = (case f of Given v \<Rightarrow> v | _ \<Rightarrow> None)"

record GlucoseBody =
  gb_userId :: "int field"
  gb_value :: "int field"
  gb_timestamp :: "timestamp field"
  gb_type :: "string field"
  gb_note :: "string option field"

definition insertGlucoseReadingSchema :: "GlucoseBody \<Rightarrow> InsertGlucoseReading option" where
  "insertGlucoseReadingSchema b =
     (case (gb_userId b, gb_value b, gb_type b) of
        (Given userId, Given v, Given ty) \<Rightarrow>
          if integer_column userId \<and> integer_column v \<and> optional_ok anything (gb_timestamp b)
             \<and> optional_ok (nullable anything) (gb_note b)
          then Some \<lparr>ig_userId = userId, ig_value = v,
                     ig_timestamp = field_value (gb_timestamp b), ig_type = ty,
                     ig_note = nullable_value (gb_note b)\<rparr>
          else None
      | _ \<Rightarrow> None)"

definition insertGlucoseReadingSchema_partial ::
  "GlucoseBody \<Rightarrow> PartialGlucoseReading option" where
  "insertGlucoseReadingSchema_partial b =
     (if optional_ok integer_column (gb_userId b) \<and> optional_ok integer_column (gb_value b)
         \<and> optional_ok anything (gb_timestamp b) \<and> optional_ok anything (gb_type b)
         \<and> optional_ok (nullable anything) (gb_note b)
      then Some \<lparr>pg_userId = field_value (gb_userId b), pg_value = field_value (gb_value b),
                 pg_timestamp = field_value (gb_timestamp b),
                 pg_type = field_value (gb_type b), pg_note = field_value (gb_note b)\<rparr>
      else None)"

record MealPlanBody =
  mb_userId :: "int field"
  mb_name :: "string field"
  mb_description :: "string option field"
  mb_mealType :: "string field"
  mb_imageUrl :: "string option field"
  mb_carbs :: "int option field"
  mb_servings :: "int option field"
  mb_prepTime :: "int option field"
  mb_tags :: "string list option field"
  mb_ingredients :: "string list option field"
  mb_instructions :: "string list option field"

definition insertMealPlanSchema_partial :: "MealPlanBody \<Rightarrow> PartialMealPlan option" where
  "insertMealPlanSchema_partial b =
     (if optional_ok integer_column (mb_userId b) \<and> optional_ok anything (mb_name b)
         \<and> optional_ok (nullable anything) (mb_description b)
         \<and> optional_ok anything (mb_mealType b)
         \<and> optional_ok (nullable anything) (mb_imageUrl b)
         \<and> optional_ok (nullable integer_column) (mb_carbs b)
         \<and> optional_ok (nullable integer_column) (mb_servings b)
         \<and> optional_ok (nullable integer_column) (mb_prepTime b)
         \<and> optional_ok (nullable anything) (mb_tags b)
         \<and> optional_ok (nullable anything) (mb_ingredients b)
         \<and> optional_ok (nullable anything) (mb_instructions b)
      then Some \<lparr>pm_userId = field_value (mb_userId b), pm_name = field_value (mb_name b),
                 pm_description = field_value (mb_description b),
                 pm_mealType = field_value (mb_mealType b),
                 pm_imageUrl = field_value (mb_imageUrl b),
                 pm_carbs = field_value (mb_carbs b),
                 pm_servings = field_value (mb_servings b),
                 pm_prepTime = field_value (mb_prepTime b),
                 pm_tags = field_value (mb_tags b),
                 pm_ingredients = field_value (mb_ingredients b),
                 pm_instructions = field_value (mb_instructions b)\<rparr>
      else None)"

record NoteBody =
  nb_userId :: "int field"
  nb_title :: "string field"
  nb_content :: "string field"
  nb_timestamp :: "timestamp field"
  nb_category :: "string option field"

definition insertNoteSchema_partial :: "NoteBody \<Rightarrow> PartialNote option" where
  "insertNoteSchema_partial b =
     (if optional_ok integer_column (nb_userId b) \<and> optional_ok anything (nb_title b)
         \<and> optional_ok anything (nb_content b) \<and> optional_ok anything (nb_timestamp b)
         \<and> optional_ok (nullable anything) (nb_category b)
      then Some \<lparr>pn_userId = field_value (nb_userId b), pn_title = field_value (nb_title b),
                 pn_content = field_value (nb_content b),
                 pn_timestamp = field_value (nb_timestamp b),
                 pn_category = field_value (nb_category b)\<rparr>
      else None)"

record RegisterBody =
  rb_username :: "string field"
  rb_email :: "string field"
  rb_password :: "string field"
  rb_name :: "string option field"
  rb_allergies :: "string list option field"
  rb_confirmPassword :: "string field"

text \<open>
  \<^verbatim>\<open>registerSchema\<close>: insertUserSchema extended by \<^verbatim>\<open>confirmPassword\<close> (a string
  whose \<^verbatim>\<open>length\<close> is at least 6) and refined by \<^verbatim>\<open>password === confirmPassword\<close>. The result is
  the parsed data without \<^verbatim>\<open>confirmPassword\<close>, as the handler takes it.
\<close>

definition registerSchema :: "RegisterBody \<Rightarrow> InsertUser option" where
  "registerSchema b =
     (case (rb_username b, rb_email b, rb_password b, rb_confirmPassword b) of
        (Given username, Given email, Given password, Given confirmPassword) \<Rightarrow>
          if optional_ok (nullable anything) (rb_name b)
             \<and> optional_ok (nullable anything) (rb_allergies b)
             \<and> 6 \<le> js_length confirmPassword \<and> password = confirmPassword
          then Some \<lparr>iu_username = username, iu_email = email, iu_password = password,
                     iu_name = nullable_value (rb_name b),
                     iu_allergies = nullable_value (rb_allergies b)\<rparr>
          else None
      | _ \<Rightarrow> None)"

text \<open>
  The form of the glucose log page checks the value before the client sends the request
  (\<^verbatim>\<open>glucoseFormSchema\<close>: \<^verbatim>\<open>z.coerce.number().min(20).max(600)\<close>).
\<close>

definition glucoseFormSchema_value :: "int \<Rightarrow> bool" where
  "glucoseFormSchema_value v = (20 \<le> v \<and> v \<le> 600)"

subsection \<open>HTTP handlers (server/routes.ts)\<close>

record PublicUser =
  pub_id :: int
  pub_username :: string
  pub_email :: string
  pub_name :: "string option"
  pub_allergies :: "string list option"

text \<open>\<^verbatim>\<open>const { password, ...userWithoutPassword } = user\<close>\<close>

definition userWithoutPassword :: "User \<Rightarrow> PublicUser" where
  "userWithoutPassword user =
     \<lparr>pub_id = u_id user, pub_username = u_username user, pub_email = u_email user,
      pub_name = u_name user, pub_allergies = u_allergies user\<rparr>"

text \<open>
  A response is its status and its JSON body. \<open>InvalidRequestData\<close> is the body
  \<^verbatim>\<open>{ message: "Invalid request data", errors: ... }\<close>, \<open>NoBody\<close> is
  \<^verbatim>\<open>res.json(undefined)\<close>.
\<close>

datatype payload =
    Message string
  | InvalidRequestData
  | UserJson PublicUser
  | ReadingJson GlucoseReading
  | PlanJson MealPlan
  | NoteJson Note
  | NoBody

datatype response = Response (status: int) (body: payload)

text \<open>
  The session holds the id that \<^verbatim>\<open>serializeUser\<close> stored; \<^verbatim>\<open>deserializeUser\<close> loads
  \<^verbatim>\<open>req.user\<close> from the store, and \<^verbatim>\<open>req.isAuthenticated()\<close> holds when it finds one.
\<close>

type_synonym session = "int option"

definition req_user :: "MemStorage \<Rightarrow> session \<Rightarrow> User option" where
  "req_user s sess = (case sess of None \<Rightarrow> None | Some ident \<Rightarrow> getUser s ident)"

definition notAuthenticated :: response where
  "notAuthenticated = Response 401 (Message ''Not authenticated'')"

text \<open>POST /api/auth/register; \<open>now\<close> is the clock that \<^verbatim>\<open>createUser\<close> reads.\<close>

definition post_auth_register ::
  "timestamp \<Rightarrow> RegisterBody \<Rightarrow> MemStorage \<Rightarrow> session \<Rightarrow> response \<times> MemStorage \<times> session" where
  "post_auth_register now b s sess =
     (case registerSchema b of
        None \<Rightarrow> (Response 400 InvalidRequestData, s, sess)
      | Some userData \<Rightarrow>
          (case getUserByUsername s (iu_username userData) of
             Some existingUser \<Rightarrow> (Response 400 (Message ''Username already taken''), s, sess)
           | None \<Rightarrow>
               (case getUserByEmail s (iu_email userData) of
                  Some existingEmail \<Rightarrow>
                    (Response 400 (Message ''Email already registered''), s, sess)
                | None \<Rightarrow>
                    (let (newUser, s') = createUser now userData s
                     in (Response 201 (UserJson (userWithoutPassword newUser)), s',
                         Some (u_id newUser))))))"

text \<open>POST /api/glucose: the session's user id replaces any \<^verbatim>\<open>userId\<close> of the body.\<close>

definition post_glucose :: "GlucoseBody \<Rightarrow> MemStorage \<Rightarrow> session \<Rightarrow> response \<times> MemStorage" where
  "post_glucose b s sess =
     (case req_user s sess of
        None \<Rightarrow> (notAuthenticated, s)
      | Some user \<Rightarrow>
          (case insertGlucoseReadingSchema (b\<lparr>gb_userId := Given (u_id user)\<rparr>) of
             None \<Rightarrow> (Response 400 InvalidRequestData, s)
           | Some data \<Rightarrow>
               (let (newReading, s') = createGlucoseReading data s
                in (Response 201 (ReadingJson newReading), s'))))"

text \<open>
  PUT and DELETE take \<^verbatim>\<open>parseInt(req.params.id)\<close>; \<open>None\<close> is NaN, which is the key
  of no entry.
\<close>

definition put_glucose ::
  "int option \<Rightarrow> GlucoseBody \<Rightarrow> MemStorage \<Rightarrow> session \<Rightarrow> response \<times> MemStorage" where
  "put_glucose param b s sess =
     (case req_user s sess of
        None \<Rightarrow> (notAuthenticated, s)
      | Some user \<Rightarrow>
          (case param of
             None \<Rightarrow> (Response 404 (Message ''Reading not found''), s)
           | Some ident \<Rightarrow>
          (case getGlucoseReading s ident of
             None \<Rightarrow> (Response 404 (Message ''Reading not found''), s)
           | Some reading \<Rightarrow>
               if gr_userId reading \<noteq> u_id user
               then (Response 403 (Message ''Not authorized to update this reading''), s)
               else (case insertGlucoseReadingSchema_partial b of
                       None \<Rightarrow> (Response 400 InvalidRequestData, s)
                     | Some data \<Rightarrow>
                         (let (updatedReading, s') = updateGlucoseReading ident data s
                          in (Response 200 (case updatedReading of
                                              Some r \<Rightarrow> ReadingJson r
                                            | None \<Rightarrow> NoBody), s'))))))"

definition delete_glucose :: "int option \<Rightarrow> MemStorage \<Rightarrow> session \<Rightarrow> response \<times> MemStorage" where
  "delete_glucose param s sess =
     (case req_user s sess of
        None \<Rightarrow> (notAuthenticated, s)
      | Some user \<Rightarrow>
          (case param of
             None \<Rightarrow> (Response 404 (Message ''Reading not found''), s)
           | Some ident \<Rightarrow>
          (case getGlucoseReading s ident of
             None \<Rightarrow> (Response 404 (Message ''Reading not found''), s)
           | Some reading \<Rightarrow>
               if gr_userId reading \<noteq> u_id user
               then (Response 403 (Message ''Not authorized to delete this reading''), s)
               else (Response 200 (Message ''Reading deleted successfully''),
                     snd (deleteGlucoseReading ident s)))))"

definition put_meal_plans ::
  "int option \<Rightarrow> MealPlanBody \<Rightarrow> MemStorage \<Rightarrow> session \<Rightarrow> response \<times> MemStorage" where
  "put_meal_plans param b s sess =
     (case req_user s sess of
        None \<Rightarrow> (notAuthenticated, s)
      | Some user \<Rightarrow>
          (case param of
             None \<Rightarrow> (Response 404 (Message ''Meal plan not found''), s)
           | Some ident \<Rightarrow>
          (case getMealPlan s ident of
             None \<Rightarrow> (Response 404 (Message ''Meal plan not found''), s)
           | Some plan \<Rightarrow>
               if mp_userId plan \<noteq> u_id user
               then (Response 403 (Message ''Not authorized to update this meal plan''), s)
               else (case insertMealPlanSchema_partial b of
                       None \<Rightarrow> (Response 400 InvalidRequestData, s)
                     | Some data \<Rightarrow>
                         (let (updatedPlan, s') = updateMealPlan ident data s
                          in (Response 200 (case updatedPlan of
                                              Some p \<Rightarrow> PlanJson p
                                            | None \<Rightarrow> NoBody), s'))))))"

definition delete_meal_plans ::
  "int option \<Rightarrow> MemStorage \<Rightarrow> session \<Rightarrow> response \<times> MemStorage" where
  "delete_meal_plans param s sess =
     (case req_user s sess of
        None \<Rightarrow> (notAuthenticated, s)
      | Some user \<Rightarrow>
          (case param of
             None \<Rightarrow> (Response 404 (Message ''Meal plan not found''), s)
           | Some ident \<Rightarrow>
          (case getMealPlan s ident of
             None \<Rightarrow> (Response 404 (Message ''Meal plan not found''), s)
           | Some plan \<Rightarrow>
               if mp_userId plan \<noteq> u_id user
               then (Response 403 (Message ''Not authorized to delete this meal plan''), s)
               else (Response 200 (Message ''Meal plan deleted successfully''),
                     snd (deleteMealPlan ident s)))))"

definition put_notes ::
  "int option \<Rightarrow> NoteBody \<Rightarrow> MemStorage \<Rightarrow> session \<Rightarrow> response \<times> MemStorage" where
  "put_notes param b s sess =
     (case req_user s sess of
        None \<Rightarrow> (notAuthenticated, s)
      | Some user \<Rightarrow>
          (case param of
             None \<Rightarrow> (Response 404 (Message ''Note not found''), s)
           | Some ident \<Rightarrow>
          (case getNote s ident of
             None \<Rightarrow> (Response 404 (Message ''Note not found''), s)
           | Some note \<Rightarrow>
               if n_userId note \<noteq> u_id user
               then (Response 403 (Message ''Not authorized to update this note''), s)
               else (case insertNoteSchema_partial b of
                       None \<Rightarrow> (Response 400 InvalidRequestData, s)
                     | Some data \<Rightarrow>
                         (let (updatedNote, s') = updateNote ident data s
                          in (Response 200 (case updatedNote of
                                              Some n \<Rightarrow> NoteJson n
                                            | None \<Rightarrow> NoBody), s'))))))"

definition delete_notes :: "int option \<Rightarrow> MemStorage \<Rightarrow> session \<Rightarrow> response \<times> MemStorage" where
  "delete_notes param s sess =
     (case req_user s sess of
        None \<Rightarrow> (notAuthenticated, s)
      | Some user \<Rightarrow>
          (case param of
             None \<Rightarrow> (Response 404 (Message ''Note not found''), s)
           | Some ident \<Rightarrow>
          (case getNote s ident of
             None \<Rightarrow> (Response 404 (Message ''Note not found''), s)
           | Some note \<Rightarrow>
               if n_userId note \<noteq> u_id user
               then (Response 403 (Message ''Not authorized to delete this note''), s)
               else (Response 200 (Message ''Note deleted successfully''),
                     snd (deleteNote ident s)))))"

subsection \<open>Meal-plan generation adapter\<close>

record MealPlanResponse =
  r_name :: string
  r_description :: string
  r_mealType :: string
  r_imageUrl :: "string option"
  r_carbs :: int
  r_servings :: int
  r_prepTime :: int
  r_tags :: "string list"
  r_ingredients :: "string list"
  r_instructions :: "string list"

definition mealImages :: "(string \<times> string list) list" where
  "mealImages =
     [(''breakfast'', [''https://images.unsplash.com/photo-1623428187969-5da2dcea5ebf'',
                       ''https://images.unsplash.com/photo-1525351484163-7529414344d8'',
                       ''https://images.unsplash.com/photo-1533089860892-a7c6f0a88666'']),
      (''lunch'', [''https://images.unsplash.com/photo-1490645935967-10de6ba17061'',
                   ''https://images.unsplash.com/photo-1546069901-ba9599a7e63c'',
                   ''https://images.unsplash.com/photo-1512621776951-a57141f2eefd'']),
      (''dinner'', [''https://images.unsplash.com/photo-1539136788836-5699e78bfc75'',
                    ''https://images.unsplash.com/photo-1467003909585-2f8a72700288'',
                    ''https://images.unsplash.com/photo-1559847844-5315695dadae'']),
      (''snack'', [''https://images.unsplash.com/photo-1486328228599-85db4443971f'',
                   ''https://images.unsplash.com/photo-1624300629298-e9de39c13be6'',
                   ''https://images.unsplash.com/photo-1593115590229-5c97a4c87b5d''])]"

text \<open>\<^verbatim>\<open>xs[0]\<close>: the first element, \<^verbatim>\<open>undefined\<close> on an empty array.\<close>

definition first_of :: "'a list \<Rightarrow> 'a option" where
  "first_of xs = (case xs of [] \<Rightarrow> None | x # _ \<Rightarrow> Some x)"

definition images_of :: "string \<Rightarrow> string list" where
  "images_of k = (case map_of mealImages k of Some urls \<Rightarrow> urls | None \<Rightarrow> [])"

text \<open>
  \<^verbatim>\<open>samples\<close> and \<^verbatim>\<open>mealImages\<close> are object literals, so \<^verbatim>\<open>samples[mealType]\<close> also
  finds what they inherit from \<^verbatim>\<open>Object.prototype\<close>. Each of these members is a
  function or an object: it is truthy, and it has no indexed element.
\<close>

definition objectPrototypeKeys :: "string list" where
  "objectPrototypeKeys =
     [''constructor'', ''__proto__'', ''hasOwnProperty'', ''isPrototypeOf'',
      ''propertyIsEnumerable'', ''toLocaleString'', ''toString'', ''valueOf'',
      ''__defineGetter__'', ''__defineSetter__'', ''__lookupGetter__'', ''__lookupSetter__'']"

definition allergyFilter :: "string list \<Rightarrow> string list \<Rightarrow> string list" where
  "allergyFilter allergies ingredients =
     filter (\<lambda>ingredient.
               \<not> list_ex (\<lambda>allergy. includes_str (toLowerCase ingredient) (toLowerCase allergy))
                          allergies)
            ingredients"

definition breakfast_sample :: "string list \<Rightarrow> MealPlanResponse" where
  "breakfast_sample allergies =
     \<lparr>r_name = ''Greek Yogurt Breakfast Bowl'',
      r_description = ''High protein breakfast with berries, nuts, and a touch of honey.'',
      r_mealType = ''breakfast'',
      r_imageUrl = first_of (images_of ''breakfast''),
      r_carbs = 18, r_servings = 1, r_prepTime = 10,
      r_tags = [''Breakfast'', ''High Protein''],
      r_ingredients = allergyFilter allergies
          [''Greek yogurt'', ''Mixed berries'', ''Almonds'', ''Honey'', ''Cinnamon''],
      r_instructions = [''Add yogurt to a bowl'',
                        ''Top with berries, nuts and a drizzle of honey'',
                        ''Sprinkle with cinnamon'']\<rparr>"

definition lunch_sample :: "string list \<Rightarrow> MealPlanResponse" where
  "lunch_sample allergies =
     \<lparr>r_name = ''Quinoa Bowl with Chickpeas'',
      r_description = ''Plant-based protein with complex carbs for sustained energy.'',
      r_mealType = ''lunch'',
      r_imageUrl = first_of (images_of ''lunch''),
      r_carbs = 32, r_servings = 1, r_prepTime = 20,
      r_tags = [''Lunch'', ''Vegetarian''],
      r_ingredients = allergyFilter allergies
          [''Quinoa'', ''Chickpeas'', ''Bell peppers'', ''Cucumber'', ''Olive oil'',
           ''Lemon juice'', ''Salt'', ''Pepper'', ''Parsley''],
      r_instructions = [''Cook quinoa according to package instructions'',
                        ''Chop vegetables and mix with chickpeas'',
                        ''Combine all ingredients and dress with olive oil and lemon juice'',
                        ''Season with salt, pepper, and chopped parsley'']\<rparr>"

definition dinner_sample :: "string list \<Rightarrow> MealPlanResponse" where
  "dinner_sample allergies =
     \<lparr>r_name = ''Grilled Salmon with Vegetables'',
      r_description = ''Perfect for dinner - high protein, low carb option with omega-3 fatty acids.'',
      r_mealType = ''dinner'',
      r_imageUrl = first_of (images_of ''dinner''),
      r_carbs = 12, r_servings = 1, r_prepTime = 30,
      r_tags = [''Low Carb'', ''High Protein''],
      r_ingredients = allergyFilter allergies
          [''Salmon fillet'', ''Asparagus'', ''Bell peppers'', ''Olive oil'', ''Lemon'',
           ''Salt'', ''Pepper''],
      r_instructions = [''Preheat oven to 400'' @ [CHR 0xC3, CHR 0x82, CHR 0xC2, CHR 0xB0] @ ''F'',
                        ''Season salmon with salt, pepper and lemon'',
                        ''Roast vegetables with olive oil'',
                        ''Bake for 15-20 minutes'']\<rparr>"

definition snack_sample :: "string list \<Rightarrow> MealPlanResponse" where
  "snack_sample allergies =
     \<lparr>r_name = ''Veggie Sticks with Hummus'',
      r_description = ''A balanced snack with protein and fiber to keep blood sugar stable.'',
      r_mealType = ''snack'',
      r_imageUrl = first_of (images_of ''snack''),
      r_carbs = 15, r_servings = 1, r_prepTime = 5,
      r_tags = [''Low Carb'', ''Vegetarian''],
      r_ingredients = allergyFilter allergies
          [''Carrot sticks'', ''Cucumber sticks'', ''Bell pepper strips'', ''Hummus'',
           ''Sesame seeds''],
      r_instructions = [''Wash and cut vegetables into sticks'',
                        ''Serve with a side of hummus'',
                        ''Sprinkle hummus with sesame seeds'']\<rparr>"

definition samples :: "string list \<Rightarrow> (string \<times> MealPlanResponse) list" where
  "samples allergies =
     [(''breakfast'', breakfast_sample allergies), (''lunch'', lunch_sample allergies),
      (''dinner'', dinner_sample allergies), (''snack'', snack_sample allergies)]"

text \<open>
  What the adapter returns: a meal plan, or the member of \<^verbatim>\<open>Object.prototype\<close> of
  the given name.
\<close>

datatype sample_value = Plan MealPlanResponse | Inherited string

text \<open>\<^verbatim>\<open>samples[mealType] || samples.snack\<close>\<close>

definition getSampleMealPlan :: "string \<Rightarrow> string list \<Rightarrow> sample_value" where
  "getSampleMealPlan mealType allergies =
     (case map_of (samples allergies) mealType of
        Some plan \<Rightarrow> Plan plan
      | None \<Rightarrow>
          if mealType \<in> set objectPrototypeKeys then Inherited mealType
          else Plan (snack_sample allergies))"

text \<open>
  A value that \<^verbatim>\<open>JSON.parse\<close> yields. The code declares the parsed content a
  \<^verbatim>\<open>MealPlanResponse\<close> and does not inspect it, so the model keeps the value as it is.
\<close>

datatype json =
    JNull
  | JBool bool
  | JNum rat
  | JStr string
  | JArr "json list"
  | JObj "(string \<times> json) list"

text \<open>An object or an array: a value on which a property can be set.\<close>

definition is_object :: "json \<Rightarrow> bool" where
  "is_object j = (case j of JObj props \<Rightarrow> True | JArr elements \<Rightarrow> True | _ \<Rightarrow> False)"

text \<open>
  What the adapter meets outside itself: the environment variable, the course of the
  request, and the value of \<^verbatim>\<open>Math.random()\<close>.
\<close>

datatype service_outcome =
    FetchRejects
  | ResponseNotOk
  | BodyNotJson
  | ContentUnreadable
  | ContentNotJson
  | ContentParsed json

record Environment =
  env_apiKey :: "string option"
  env_service :: service_outcome
  env_random :: rat

datatype js_error = NetworkError | ApiRequestFailed | SyntaxError | TypeError

text \<open>
  \<^verbatim>\<open>mealImages[mealType][Math.floor(Math.random() * mealImages[mealType].length)]\<close>:
  reading \<^verbatim>\<open>length\<close> of \<^verbatim>\<open>undefined\<close> throws; an index that is no element's gives
  \<^verbatim>\<open>undefined\<close>.
\<close>

definition pickImage :: "rat \<Rightarrow> string \<Rightarrow> js_error + string option" where
  "pickImage random mealType =
     (case map_of mealImages mealType of
        Some urls \<Rightarrow>
          (let imageIndex = \<lfloor>random * of_nat (length urls)\<rfloor>
           in Inr (if 0 \<le> imageIndex \<and> imageIndex < int (length urls)
                   then Some (urls ! nat imageIndex) else None))
      | None \<Rightarrow> if mealType \<in> set objectPrototypeKeys then Inr None else Inl TypeError)"

text \<open>
  What \<^verbatim>\<open>generateMealPlan\<close> returns: the value of \<^verbatim>\<open>getSampleMealPlan\<close>, or the
  object that \<^verbatim>\<open>JSON.parse\<close> yielded together with the value that the code has then
  assigned to its \<^verbatim>\<open>imageUrl\<close> (\<open>None\<close> is \<^verbatim>\<open>undefined\<close>).
\<close>

datatype generated = Sample sample_value | FromService json "string option"

text \<open>
  The statements of the \<^verbatim>\<open>try\<close> block after the check of the key. \<open>Inl\<close> is a throw
  or a rejected promise: \<^verbatim>\<open>fetch\<close> rejects, the status is not ok, \<^verbatim>\<open>response.json()\<close>
  rejects, \<^verbatim>\<open>data.choices[0].message.content\<close> cannot be read, \<^verbatim>\<open>JSON.parse\<close> throws,
  the image cannot be picked, or the parsed value is \<^verbatim>\<open>null\<close> or a primitive, on which
  the module (strict code) cannot set \<^verbatim>\<open>imageUrl\<close>. A parsed object or array is
  returned as it is, with \<^verbatim>\<open>imageUrl\<close> set.
\<close>

definition requestMealPlan :: "Environment \<Rightarrow> string \<Rightarrow> js_error + generated" where
  "requestMealPlan env mealType =
     (case env_service env of
        FetchRejects \<Rightarrow> Inl NetworkError
      | ResponseNotOk \<Rightarrow> Inl ApiRequestFailed
      | BodyNotJson \<Rightarrow> Inl SyntaxError
      | ContentUnreadable \<Rightarrow> Inl TypeError
      | ContentNotJson \<Rightarrow> Inl SyntaxError
      | ContentParsed mealPlan \<Rightarrow>
          (case pickImage (env_random env) mealType of
             Inl e \<Rightarrow> Inl e
           | Inr url \<Rightarrow>
               if is_object mealPlan then Inr (FromService mealPlan url) else Inl TypeError))"

text \<open>\<^verbatim>\<open>!apiKey\<close>: the variable is not set or is the empty string.\<close>

definition generateMealPlan ::
  "Environment \<Rightarrow> string \<Rightarrow> string list \<Rightarrow> js_error + generated" where
  "generateMealPlan env mealType allergies =
     (case (if env_apiKey env = None \<or> env_apiKey env = Some []
            then Inr (Sample (getSampleMealPlan mealType allergies))
            else requestMealPlan env mealType) of
        Inl error \<Rightarrow> Inr (Sample (getSampleMealPlan mealType allergies))
      | Inr mealPlan \<Rightarrow> Inr mealPlan)"

text \<open>
  A meal-plan value, after the interface \<^verbatim>\<open>MealPlanResponse\<close>: an object whose
  \<^verbatim>\<open>name\<close>, \<^verbatim>\<open>description\<close> and \<^verbatim>\<open>mealType\<close> are strings, whose \<^verbatim>\<open>carbs\<close>,
  \<^verbatim>\<open>servings\<close> and \<^verbatim>\<open>prepTime\<close> are numbers and whose \<^verbatim>\<open>tags\<close>, \<^verbatim>\<open>ingredients\<close>
  and \<^verbatim>\<open>instructions\<close> are arrays of strings (\<^verbatim>\<open>imageUrl\<close> is optional).
\<close>

definition has_string :: "string \<Rightarrow> (string \<times> json) list \<Rightarrow> bool" where
  "has_string k props = (case map_of props k of Some (JStr v) \<Rightarrow> True | _ \<Rightarrow> False)"

definition has_number :: "string \<Rightarrow> (string \<times> json) list \<Rightarrow> bool" where
  "has_number k props = (case map_of props k of Some (JNum v) \<Rightarrow> True | _ \<Rightarrow> False)"

definition has_strings :: "string \<Rightarrow> (string \<times> json) list \<Rightarrow> bool" where
  "has_strings k props =
     (case map_of props k of
        Some (JArr vs) \<Rightarrow> list_all (\<lambda>v. case v of JStr x \<Rightarrow> True | _ \<Rightarrow> False) vs
      | _ \<Rightarrow> False)"

definition is_MealPlanResponse :: "json \<Rightarrow> bool" where
  "is_MealPlanResponse j =
     (case j of
        JObj props \<Rightarrow>
          has_string ''name'' props \<and> has_string ''description'' props
          \<and> has_string ''mealType'' props \<and> has_number ''carbs'' props
          \<and> has_number ''servings'' props \<and> has_number ''prepTime'' props
          \<and> has_strings ''tags'' props \<and> has_strings ''ingredients'' props
          \<and> has_strings ''instructions'' props
      | _ \<Rightarrow> False)"

definition meal_plan_value :: "generated \<Rightarrow> bool" where
  "meal_plan_value v =
     (case v of
        Sample (Plan p) \<Rightarrow> True
      | Sample (Inherited k) \<Rightarrow> False
      | FromService j url \<Rightarrow> is_MealPlanResponse j)"

text \<open>
  Two replies of the service, used where a property is run on concrete data: a recipe
  of the asked shape, and an error object.
\<close>

definition recipeReply :: json where
  "recipeReply =
     JObj [(''name'', JStr ''Lentil Soup''), (''description'', JStr ''A warm bowl''),
           (''mealType'', JStr ''lunch''), (''carbs'', JNum 30), (''servings'', JNum 2),
           (''prepTime'', JNum 25), (''tags'', JArr [JStr ''Lunch'']),
           (''ingredients'', JArr [JStr ''Lentils'', JStr ''Carrot'']),
           (''instructions'', JArr [JStr ''Simmer'', JStr ''Serve''])]"

definition errorReply :: json where
  "errorReply = JObj [(''error'', JStr ''quota'')]"

subsection \<open>Store invariant\<close>

text \<open>
  In a collection the keys are pairwise distinct, every record is stored under its own
  identifier, and every identifier is below the collection's counter.
\<close>

definition keys_ok :: "('v \<Rightarrow> int) \<Rightarrow> (int, 'v) jsmap \<Rightarrow> int \<Rightarrow> bool" where
  "keys_ok ident m counter =
     (distinct (map fst m) \<and> (\<forall>(k, r) \<in> set m. ident r = k \<and> k < counter))"

definition store_invariant :: "MemStorage \<Rightarrow> bool" where
  "store_invariant s =
     (keys_ok u_id (users s) (userIdCounter s)
      \<and> keys_ok gr_id (glucoseReadings s) (glucoseIdCounter s)
      \<and> keys_ok mp_id (mealPlans s) (mealPlanIdCounter s)
      \<and> keys_ok n_id (notes s) (noteIdCounter s))"

text \<open>No counter of the first store is above the same counter of the second.\<close>

definition counters_le :: "MemStorage \<Rightarrow> MemStorage \<Rightarrow> bool" where
  "counters_le s t =
     (userIdCounter s \<le> userIdCounter t \<and> glucoseIdCounter s \<le> glucoseIdCounter t
      \<and> mealPlanIdCounter s \<le> mealPlanIdCounter t \<and> noteIdCounter s \<le> noteIdCounter t)"

text \<open>
  A store with a second user, used where a property is run on concrete data: the
  constructor at time 0, then a user \<^verbatim>\<open>ann\<close> with one reading, one meal plan and one note.
\<close>

definition twoUsers :: MemStorage where
  "twoUsers =
     run [CreateUser 5 \<lparr>iu_username = ''ann'', iu_email = ''ann@example.com'',
                         iu_password = ''secret12'', iu_name = None, iu_allergies = None\<rparr>,
          CreateGlucoseReading \<lparr>ig_userId = 2, ig_value = 97, ig_timestamp = None,
                                 ig_type = ''fasting'', ig_note = None\<rparr>,
          CreateMealPlan 7 \<lparr>im_userId = 2, im_name = ''Oatmeal'', im_description = None,
                             im_mealType = ''breakfast'', im_imageUrl = None,
                             im_carbs = Some 27, im_servings = Some 1, im_prepTime = Some 5,
                             im_tags = None, im_ingredients = Some [''Oats'', ''Water''],
                             im_instructions = None, im_createdAt = None\<rparr>,
          CreateNote \<lparr>in_userId = 2, in_title = ''Walk'', in_content = ''Evening walk'',
                       in_timestamp = None, in_category = None\<rparr>]
         (newMemStorage 0)"

text \<open>
  Two request bodies of the scenarios: the registration
  \<^verbatim>\<open>{username: "demo", email: "demo@example.com", password: "password123",
  confirmPassword: "password123"}\<close> and the reading
  \<^verbatim>\<open>{value: v, type: "before_breakfast"}\<close>.
\<close>

definition demoRegistration :: RegisterBody where
  "demoRegistration =
     \<lparr>rb_username = Given ''demo'', rb_email = Given ''demo@example.com'',
      rb_password = Given ''password123'', rb_name = Absent, rb_allergies = Absent,
      rb_confirmPassword = Given ''password123''\<rparr>"

definition readingRequest :: "int \<Rightarrow> GlucoseBody" where
  "readingRequest v =
     \<lparr>gb_userId = Absent, gb_value = Given v, gb_timestamp = Absent,
      gb_type = Given ''before_breakfast'', gb_note = Absent\<rparr>"

text \<open>The user that the constructor stores.\<close>

definition demoStored :: User where
  "demoStored =
     \<lparr>u_id = 1, u_username = ''demo'', u_email = ''demo@example.com'',
      u_password = ''password123'', u_name = Some ''John Doe'',
      u_allergies = Some [''peanuts'', ''shellfish'']\<rparr>"

section \<open>Properties\<close>

subsection \<open>The sample meal plan and the adapter\<close>

lemma allergyFilter_free:
  "ingredient \<in> set (allergyFilter allergies ingredients) \<Longrightarrow> allergy \<in> set allergies \<Longrightarrow>
   \<not> includes_str (toLowerCase ingredient) (toLowerCase allergy)"
  by (auto simp: allergyFilter_def list_ex_iff)

lemma getSampleMealPlan_cases:
  "getSampleMealPlan mealType allergies = Plan p \<Longrightarrow>
   p \<in> {breakfast_sample allergies, lunch_sample allergies, dinner_sample allergies,
        snack_sample allergies}"
  by (auto simp: getSampleMealPlan_def samples_def split: if_splits)

lemma sample_ingredients:
  "p \<in> {breakfast_sample allergies, lunch_sample allergies, dinner_sample allergies,
        snack_sample allergies}
   \<Longrightarrow> \<exists>xs. r_ingredients p = allergyFilter allergies xs"
  by (auto simp: breakfast_sample_def lunch_sample_def dinner_sample_def snack_sample_def)

lemma getSampleMealPlan_Plan:
  "mealType \<notin> set objectPrototypeKeys \<Longrightarrow> \<exists>p. getSampleMealPlan mealType allergies = Plan p"
  by (auto simp: getSampleMealPlan_def split: option.splits)

lemma generateMealPlan_cases:
  "generateMealPlan env mealType allergies
     = Inr (Sample (getSampleMealPlan mealType allergies)) \<or>
   (\<exists>j url. env_service env = ContentParsed j \<and> is_object j \<and>
      pickImage (env_random env) mealType = Inr url \<and>
      generateMealPlan env mealType allergies = Inr (FromService j url))"
  by (auto simp: generateMealPlan_def requestMealPlan_def
           split: service_outcome.splits sum.splits)

text \<open>
  C7. Whatever the meal type and the allergy list, when \<^verbatim>\<open>getSampleMealPlan\<close> returns a
  meal plan, no ingredient of that plan contains an element of the allergy list as a
  substring, both taken in lower case.
\<close>

theorem fallback_ingredients_allergen_free:
  assumes "getSampleMealPlan mealType allergies = Plan p"
    and "ingredient \<in> set (r_ingredients p)"
    and "allergy \<in> set allergies"
  shows "\<not> includes_str (toLowerCase ingredient) (toLowerCase allergy)"
proof -
  from assms(1) obtain xs where "r_ingredients p = allergyFilter allergies xs"
    using getSampleMealPlan_cases sample_ingredients by blast
  with assms(2,3) show ?thesis
    by (auto dest: allergyFilter_free)
qed

theorem fallback_ingredients_allergen_free_witness:
  "getSampleMealPlan ''breakfast'' [''ALMOND''] = Plan (breakfast_sample [''ALMOND''])
   \<and> r_ingredients (breakfast_sample [''ALMOND''])
       = [''Greek yogurt'', ''Mixed berries'', ''Honey'', ''Cinnamon'']
   \<and> \<not> includes_str (toLowerCase ''Honey'') (toLowerCase ''ALMOND'')"
proof -
  have plan: "getSampleMealPlan ''breakfast'' [''ALMOND''] = Plan (breakfast_sample [''ALMOND''])"
    by (simp add: getSampleMealPlan_def samples_def)
  have ingredients: "r_ingredients (breakfast_sample [''ALMOND''])
       = [''Greek yogurt'', ''Mixed berries'', ''Honey'', ''Cinnamon'']"
    by code_simp
  have honey: "''Honey'' \<in> set (r_ingredients (breakfast_sample [''ALMOND'']))"
    by (simp add: ingredients)
  have almond: "''ALMOND'' \<in> set [''ALMOND'']"
    by simp
  from fallback_ingredients_allergen_free [OF plan honey almond] plan ingredients
  show ?thesis by blast
qed

text \<open>
  C8, as the code has it. \<^verbatim>\<open>generateMealPlan\<close> never raises: for every meal type,
  allergy list, key, course of the request and random value it returns a value. When the
  key is missing, the request fails, the content is not JSON or parses to \<^verbatim>\<open>null\<close> or a
  primitive, or no image can be picked, the value is that of \<^verbatim>\<open>getSampleMealPlan\<close>,
  which is a meal plan for every meal type that is not the name of a member of
  \<^verbatim>\<open>Object.prototype\<close>, so for each of the tags breakfast, lunch, dinner and snack. When
  the content parses to an object, the adapter returns that object with \<^verbatim>\<open>imageUrl\<close>
  set and does not check it. So for such a meal type the returned value is a meal plan
  whenever the content, if any was parsed, is one.
\<close>

theorem generateMealPlan_never_raises:
  "(\<exists>v. generateMealPlan env mealType allergies = Inr v)
   \<and> (env_apiKey env = None \<or> env_apiKey env = Some [] \<or>
        env_service env \<in> {FetchRejects, ResponseNotOk, BodyNotJson, ContentUnreadable,
                            ContentNotJson} \<or>
        (\<exists>j. env_service env = ContentParsed j \<and> \<not> is_object j) \<or>
        pickImage (env_random env) mealType = Inl TypeError \<longrightarrow>
        generateMealPlan env mealType allergies
          = Inr (Sample (getSampleMealPlan mealType allergies)))
   \<and> (mealType \<notin> set objectPrototypeKeys \<longrightarrow>
        (\<exists>p. getSampleMealPlan mealType allergies = Plan p))
   \<and> (env_apiKey env = Some key \<and> key \<noteq> [] \<and> env_service env = ContentParsed j
        \<and> is_object j \<and> pickImage (env_random env) mealType = Inr url \<longrightarrow>
        generateMealPlan env mealType allergies = Inr (FromService j url))
   \<and> (generateMealPlan env mealType allergies = Inr v
        \<and> mealType \<notin> set objectPrototypeKeys
        \<and> (\<forall>c. env_service env = ContentParsed c \<longrightarrow> is_MealPlanResponse c) \<longrightarrow>
        meal_plan_value v)"
proof (intro conjI impI)
  show "\<exists>v. generateMealPlan env mealType allergies = Inr v"
    using generateMealPlan_cases [of env mealType allergies] by auto
next
  assume "env_apiKey env = None \<or> env_apiKey env = Some [] \<or>
        env_service env \<in> {FetchRejects, ResponseNotOk, BodyNotJson, ContentUnreadable,
                            ContentNotJson} \<or>
        (\<exists>j. env_service env = ContentParsed j \<and> \<not> is_object j) \<or>
        pickImage (env_random env) mealType = Inl TypeError"
  then show "generateMealPlan env mealType allergies
          = Inr (Sample (getSampleMealPlan mealType allergies))"
    by (auto simp: generateMealPlan_def requestMealPlan_def
             split: service_outcome.splits sum.splits)
next
  assume "mealType \<notin> set objectPrototypeKeys"
  then show "\<exists>p. getSampleMealPlan mealType allergies = Plan p"
    by (rule getSampleMealPlan_Plan)
next
  assume "env_apiKey env = Some key \<and> key \<noteq> [] \<and> env_service env = ContentParsed j
        \<and> is_object j \<and> pickImage (env_random env) mealType = Inr url"
  then show "generateMealPlan env mealType allergies = Inr (FromService j url)"
    by (simp add: generateMealPlan_def requestMealPlan_def)
next
  assume a: "generateMealPlan env mealType allergies = Inr v
        \<and> mealType \<notin> set objectPrototypeKeys
        \<and> (\<forall>c. env_service env = ContentParsed c \<longrightarrow> is_MealPlanResponse c)"
  then obtain p where p: "getSampleMealPlan mealType allergies = Plan p"
    using getSampleMealPlan_Plan by blast
  from generateMealPlan_cases [of env mealType allergies] show "meal_plan_value v"
  proof
    assume "generateMealPlan env mealType allergies
              = Inr (Sample (getSampleMealPlan mealType allergies))"
    with a p show ?thesis by (auto simp: meal_plan_value_def)
  next
    assume "\<exists>j url. env_service env = ContentParsed j \<and> is_object j \<and>
      pickImage (env_random env) mealType = Inr url \<and>
      generateMealPlan env mealType allergies = Inr (FromService j url)"
    with a show ?thesis by (auto simp: meal_plan_value_def)
  qed
qed

theorem generateMealPlan_never_raises_witness:
  "env_service \<lparr>env_apiKey = Some ''sk-1'', env_service = FetchRejects, env_random = 0\<rparr>
       \<in> {FetchRejects, ResponseNotOk, BodyNotJson, ContentUnreadable, ContentNotJson}
   \<and> generateMealPlan \<lparr>env_apiKey = Some ''sk-1'', env_service = FetchRejects, env_random = 0\<rparr>
        ''lunch'' [''Chickpeas''] = Inr (Sample (Plan (lunch_sample [''Chickpeas''])))
   \<and> ''lunch'' \<notin> set objectPrototypeKeys
   \<and> is_MealPlanResponse recipeReply
   \<and> generateMealPlan
        \<lparr>env_apiKey = Some ''sk-1'', env_service = ContentParsed recipeReply,
         env_random = 1 / 2\<rparr> ''lunch'' []
       = Inr (FromService recipeReply
               (Some ''https://images.unsplash.com/photo-1546069901-ba9599a7e63c''))
   \<and> meal_plan_value (FromService recipeReply
        (Some ''https://images.unsplash.com/photo-1546069901-ba9599a7e63c''))"
proof -
  let ?down = "\<lparr>env_apiKey = Some ''sk-1'', env_service = FetchRejects, env_random = 0\<rparr>"
  let ?up = "\<lparr>env_apiKey = Some ''sk-1'', env_service = ContentParsed recipeReply,
              env_random = 1 / 2\<rparr>"
  let ?url = "Some ''https://images.unsplash.com/photo-1546069901-ba9599a7e63c''"
  have tag: "''lunch'' \<notin> set objectPrototypeKeys"
    by (simp add: objectPrototypeKeys_def)
  have sample: "getSampleMealPlan ''lunch'' [''Chickpeas''] = Plan (lunch_sample [''Chickpeas''])"
    by (simp add: getSampleMealPlan_def samples_def)
  have recipe: "is_MealPlanResponse recipeReply"
    by code_simp
  have obj: "is_object recipeReply"
    by (simp add: is_object_def recipeReply_def)
  have image: "pickImage (env_random ?up) ''lunch'' = Inr ?url"
    by code_simp
  from generateMealPlan_never_raises [of ?down "''lunch''" "[''Chickpeas'']"] sample
  have fallback: "generateMealPlan ?down ''lunch'' [''Chickpeas'']
      = Inr (Sample (Plan (lunch_sample [''Chickpeas''])))"
    by simp
  from generateMealPlan_never_raises
         [where env = ?up and mealType = "''lunch''" and allergies = "[]"
            and key = "''sk-1''" and j = recipeReply and url = ?url] obj image
  have served: "generateMealPlan ?up ''lunch'' [] = Inr (FromService recipeReply ?url)"
    by simp
  from generateMealPlan_never_raises
         [where env = ?up and mealType = "''lunch''" and allergies = "[]"
            and v = "FromService recipeReply ?url"] served tag recipe
  have "meal_plan_value (FromService recipeReply ?url)"
    by simp
  with fallback served tag recipe show ?thesis by simp
qed

text \<open>
  With a key set, a reply whose content is the object \<^verbatim>\<open>{"error": "quota"}\<close> is
  returned with an image and without the fields of a meal plan; and for the meal type
  \<^verbatim>\<open>constructor\<close> the sample is the member of \<^verbatim>\<open>Object.prototype\<close> of that name.
  Neither value is a meal plan.
\<close>

theorem generateMealPlan_returns_unchecked_reply:
  "generateMealPlan
      \<lparr>env_apiKey = Some ''sk-1'', env_service = ContentParsed errorReply, env_random = 0\<rparr>
      ''lunch'' []
     = Inr (FromService errorReply
             (Some ''https://images.unsplash.com/photo-1490645935967-10de6ba17061''))
   \<and> \<not> meal_plan_value (FromService errorReply
             (Some ''https://images.unsplash.com/photo-1490645935967-10de6ba17061''))
   \<and> generateMealPlan
        \<lparr>env_apiKey = None, env_service = FetchRejects, env_random = 0\<rparr> ''constructor'' []
     = Inr (Sample (Inherited ''constructor''))
   \<and> \<not> meal_plan_value (Sample (Inherited ''constructor''))"
  by code_simp

subsection \<open>Maps, sorting and slicing\<close>

lemma map_of_map_set: "map_of (map_set k v m) = (map_of m)(k \<mapsto> v)"
  by (induction m) auto

lemma keys_map_set: "set (map fst (map_set k v m)) = insert k (set (map fst m))"
  by (induction m) auto

lemma keys_map_set_present:
  "k \<in> set (map fst m) \<Longrightarrow> map fst (map_set k v m) = map fst m"
  by (induction m) auto

lemma set_insert_by: "set (insert_by cmp x ys) = insert x (set ys)"
  by (induction ys) auto

lemma set_sort_by: "set (sort_by cmp xs) = set xs"
  unfolding sort_by_def by (induction xs) (auto simp: set_insert_by)

lemma set_slice_limit: "set (slice_limit limit xs) \<subseteq> set xs"
  by (auto simp: slice_limit_def split: option.splits dest: in_set_takeD)

lemma map_get_delete: "map_get (snd (map_delete k m)) k = None"
  by (induction m) (auto simp: map_get_def map_delete_def)

lemma map_delete_absent: "map_get m k = None \<Longrightarrow> map_delete k m = (False, m)"
proof -
  assume "map_get m k = None"
  then have notin: "k \<notin> fst ` set m"
    by (simp add: map_get_def map_of_eq_None_iff)
  then have "filter (\<lambda>p. fst p \<noteq> k) m = m"
    by (intro filter_True) auto
  with notin show ?thesis
    by (simp add: map_delete_def)
qed

lemma map_delete_present: "map_get m k = Some v \<Longrightarrow> fst (map_delete k m)"
  by (auto simp: map_get_def map_delete_def dest!: map_of_SomeD intro: rev_image_eqI)

lemma map_set_absent: "k \<notin> set (map fst m) \<Longrightarrow> map_set k v m = m @ [(k, v)]"
  by (induction m) auto

lemma set_map_set: "set (map_set k v m) \<subseteq> insert (k, v) (set m)"
  by (induction m) auto

lemma map_get_map_set_same: "map_get (map_set k v m) k = Some v"
  by (simp add: map_get_def map_of_map_set)

lemma map_get_map_set_other: "j \<noteq> k \<Longrightarrow> map_get (map_set k v m) j = map_get m j"
  by (simp add: map_get_def map_of_map_set)

lemma map_get_keys: "map_get m k = Some v \<Longrightarrow> k \<in> set (map fst m)"
  by (force simp: map_get_def dest: map_of_SomeD)

subsection \<open>List queries\<close>

lemma getGlucoseReadings_own:
  "r \<in> set (getGlucoseReadings s u limit) \<Longrightarrow> gr_userId r = u"
  using set_slice_limit [of limit] by (fastforce simp: getGlucoseReadings_def set_sort_by)

lemma getGlucoseReadingsByDateRange_own:
  "r \<in> set (getGlucoseReadingsByDateRange s u a b) \<Longrightarrow> gr_userId r = u"
  by (auto simp: getGlucoseReadingsByDateRange_def set_sort_by)

lemma getMealPlans_own:
  "p \<in> set (getMealPlans s u limit) \<Longrightarrow> mp_userId p = u"
  using set_slice_limit [of limit] by (fastforce simp: getMealPlans_def set_sort_by)

lemma getMealPlansByType_own:
  "p \<in> set (getMealPlansByType s u t) \<Longrightarrow> mp_userId p = u"
  by (auto simp: getMealPlansByType_def set_sort_by)

lemma getNotes_own:
  "n \<in> set (getNotes s u limit) \<Longrightarrow> n_userId n = u"
  using set_slice_limit [of limit] by (fastforce simp: getNotes_def set_sort_by)

text \<open>
  C4. For distinct user ids u1 and u2 and every store, reachable or not, each list query
  for u1 (glucose readings, also by date range; meal plans, also by type; notes) returns
  only records whose owning-user id is u1, and so none owned by u2.
\<close>

theorem list_queries_return_own_records:
  assumes "u1 \<noteq> u2"
  shows "(\<forall>r \<in> set (getGlucoseReadings s u1 limit). gr_userId r = u1 \<and> gr_userId r \<noteq> u2)
       \<and> (\<forall>r \<in> set (getGlucoseReadingsByDateRange s u1 startDate endDate).
             gr_userId r = u1 \<and> gr_userId r \<noteq> u2)
       \<and> (\<forall>p \<in> set (getMealPlans s u1 limit). mp_userId p = u1 \<and> mp_userId p \<noteq> u2)
       \<and> (\<forall>p \<in> set (getMealPlansByType s u1 mealType). mp_userId p = u1 \<and> mp_userId p \<noteq> u2)
       \<and> (\<forall>n \<in> set (getNotes s u1 limit). n_userId n = u1 \<and> n_userId n \<noteq> u2)"
proof (intro conjI ballI)
  fix r assume "r \<in> set (getGlucoseReadings s u1 limit)"
  then show "gr_userId r = u1" by (rule getGlucoseReadings_own)
  with assms show "gr_userId r \<noteq> u2" by simp
next
  fix r assume "r \<in> set (getGlucoseReadingsByDateRange s u1 startDate endDate)"
  then show "gr_userId r = u1" by (rule getGlucoseReadingsByDateRange_own)
  with assms show "gr_userId r \<noteq> u2" by simp
next
  fix p assume "p \<in> set (getMealPlans s u1 limit)"
  then show "mp_userId p = u1" by (rule getMealPlans_own)
  with assms show "mp_userId p \<noteq> u2" by simp
next
  fix p assume "p \<in> set (getMealPlansByType s u1 mealType)"
  then show "mp_userId p = u1" by (rule getMealPlansByType_own)
  with assms show "mp_userId p \<noteq> u2" by simp
next
  fix n assume "n \<in> set (getNotes s u1 limit)"
  then show "n_userId n = u1" by (rule getNotes_own)
  with assms show "n_userId n \<noteq> u2" by simp
qed

theorem list_queries_return_own_records_witness:
  "(1::int) \<noteq> 2
   \<and> map gr_id (map_values (glucoseReadings twoUsers)) = [1, 2, 3, 4, 5]
   \<and> map gr_id (getGlucoseReadings twoUsers 1 None) = [1, 2, 3, 4]
   \<and> list_all (\<lambda>r. gr_userId r = 1 \<and> gr_userId r \<noteq> 2) (getGlucoseReadings twoUsers 1 None)
   \<and> map n_id (getNotes twoUsers 2 None) = [3]"
proof -
  have ne: "(1::int) \<noteq> 2" by simp
  have stored: "map gr_id (map_values (glucoseReadings twoUsers)) = [1, 2, 3, 4, 5]"
    by code_simp
  have listed: "map gr_id (getGlucoseReadings twoUsers 1 None) = [1, 2, 3, 4]"
    by code_simp
  have noted: "map n_id (getNotes twoUsers 2 None) = [3]"
    by code_simp
  from list_queries_return_own_records [OF ne, of twoUsers None]
  have "list_all (\<lambda>r. gr_userId r = 1 \<and> gr_userId r \<noteq> 2) (getGlucoseReadings twoUsers 1 None)"
    by (simp add: list_all_iff)
  with ne stored listed noted show ?thesis by simp
qed

subsection \<open>Deleting\<close>

lemma deleteGlucoseReading_get:
  "getGlucoseReading (snd (deleteGlucoseReading i s)) i = None"
  using map_get_delete [where m = "glucoseReadings s" and k = i]
  by (simp add: getGlucoseReading_def deleteGlucoseReading_def split_beta)

lemma deleteGlucoseReading_absent:
  "getGlucoseReading s i = None \<Longrightarrow> deleteGlucoseReading i s = (False, s)"
  by (simp add: getGlucoseReading_def deleteGlucoseReading_def map_delete_absent)

lemma deleteGlucoseReading_present:
  "getGlucoseReading s i = Some r \<Longrightarrow> fst (deleteGlucoseReading i s)"
  using map_delete_present [where m = "glucoseReadings s" and k = i and v = r]
  by (simp add: getGlucoseReading_def deleteGlucoseReading_def split_beta)

lemma deleteMealPlan_get:
  "getMealPlan (snd (deleteMealPlan i s)) i = None"
  using map_get_delete [where m = "mealPlans s" and k = i]
  by (simp add: getMealPlan_def deleteMealPlan_def split_beta)

lemma deleteMealPlan_absent:
  "getMealPlan s i = None \<Longrightarrow> deleteMealPlan i s = (False, s)"
  by (simp add: getMealPlan_def deleteMealPlan_def map_delete_absent)

lemma deleteMealPlan_present:
  "getMealPlan s i = Some r \<Longrightarrow> fst (deleteMealPlan i s)"
  using map_delete_present [where m = "mealPlans s" and k = i and v = r]
  by (simp add: getMealPlan_def deleteMealPlan_def split_beta)

lemma deleteNote_get:
  "getNote (snd (deleteNote i s)) i = None"
  using map_get_delete [where m = "notes s" and k = i]
  by (simp add: getNote_def deleteNote_def split_beta)

lemma deleteNote_absent:
  "getNote s i = None \<Longrightarrow> deleteNote i s = (False, s)"
  by (simp add: getNote_def deleteNote_def map_delete_absent)

lemma deleteNote_present:
  "getNote s i = Some r \<Longrightarrow> fst (deleteNote i s)"
  using map_delete_present [where m = "notes s" and k = i and v = r]
  by (simp add: getNote_def deleteNote_def split_beta)

text \<open>
  C6. For glucose readings, meal plans and notes (users have no delete): after a delete
  that returned true, a get by the same id returns nothing; a delete of an id that has
  no record returns false and leaves the store as it was; a delete of an id that has a
  record returns true. The function is total, it has no failing branch.
\<close>

theorem delete_then_get_absent:
  "(fst (deleteGlucoseReading i s) \<longrightarrow> getGlucoseReading (snd (deleteGlucoseReading i s)) i = None)
   \<and> (getGlucoseReading s i = None \<longrightarrow> deleteGlucoseReading i s = (False, s))
   \<and> (getGlucoseReading s i \<noteq> None \<longrightarrow> fst (deleteGlucoseReading i s))
   \<and> (fst (deleteMealPlan i s) \<longrightarrow> getMealPlan (snd (deleteMealPlan i s)) i = None)
   \<and> (getMealPlan s i = None \<longrightarrow> deleteMealPlan i s = (False, s))
   \<and> (getMealPlan s i \<noteq> None \<longrightarrow> fst (deleteMealPlan i s))
   \<and> (fst (deleteNote i s) \<longrightarrow> getNote (snd (deleteNote i s)) i = None)
   \<and> (getNote s i = None \<longrightarrow> deleteNote i s = (False, s))
   \<and> (getNote s i \<noteq> None \<longrightarrow> fst (deleteNote i s))"
proof (intro conjI impI)
  show "getGlucoseReading (snd (deleteGlucoseReading i s)) i = None"
    by (rule deleteGlucoseReading_get)
  show "getMealPlan (snd (deleteMealPlan i s)) i = None"
    by (rule deleteMealPlan_get)
  show "getNote (snd (deleteNote i s)) i = None"
    by (rule deleteNote_get)
  show "deleteGlucoseReading i s = (False, s)" if "getGlucoseReading s i = None"
    using that by (rule deleteGlucoseReading_absent)
  show "deleteMealPlan i s = (False, s)" if "getMealPlan s i = None"
    using that by (rule deleteMealPlan_absent)
  show "deleteNote i s = (False, s)" if "getNote s i = None"
    using that by (rule deleteNote_absent)
  show "fst (deleteGlucoseReading i s)" if "getGlucoseReading s i \<noteq> None"
    using that deleteGlucoseReading_present by blast
  show "fst (deleteMealPlan i s)" if "getMealPlan s i \<noteq> None"
    using that deleteMealPlan_present by blast
  show "fst (deleteNote i s)" if "getNote s i \<noteq> None"
    using that deleteNote_present by blast
qed

theorem delete_then_get_absent_witness:
  "fst (deleteGlucoseReading 2 twoUsers)
   \<and> getGlucoseReading twoUsers 2 \<noteq> None
   \<and> getGlucoseReading (snd (deleteGlucoseReading 2 twoUsers)) 2 = None
   \<and> getNote twoUsers 99 = None
   \<and> deleteNote 99 twoUsers = (False, twoUsers)"
proof -
  have present: "getGlucoseReading twoUsers 2 \<noteq> None"
    by code_simp
  have absent: "getNote twoUsers 99 = None"
    by code_simp
  from delete_then_get_absent [of 2 twoUsers] present
  have "fst (deleteGlucoseReading 2 twoUsers)"
    and "getGlucoseReading (snd (deleteGlucoseReading 2 twoUsers)) 2 = None"
    by blast+
  moreover from delete_then_get_absent [of 99 twoUsers] absent
  have "deleteNote 99 twoUsers = (False, twoUsers)"
    by blast
  ultimately show ?thesis using present absent by blast
qed

subsection \<open>The invariant of reachable stores\<close>

lemma keys_ok_create:
  assumes "keys_ok ident m c" and "ident r = c"
  shows "keys_ok ident (map_set c r m) (c + 1)"
proof -
  have fresh: "c \<notin> set (map fst m)"
    using assms(1) by (force simp: keys_ok_def)
  have "distinct (map fst (m @ [(c, r)]))"
    using assms(1) fresh by (simp add: keys_ok_def)
  moreover have "\<forall>(k, x) \<in> set (m @ [(c, r)]). ident x = k \<and> k < c + 1"
    using assms by (fastforce simp: keys_ok_def)
  ultimately show ?thesis
    by (simp only: keys_ok_def map_set_absent [OF fresh])
qed

lemma keys_ok_update:
  assumes "keys_ok ident m c" and "map_of m k = Some old" and "ident r = ident old"
  shows "keys_ok ident (map_set k r m) c"
proof -
  from assms(2) have mem: "(k, old) \<in> set m" by (rule map_of_SomeD)
  then have kin: "k \<in> set (map fst m)" by force
  from assms(1) mem have old: "ident old = k \<and> k < c" by (auto simp: keys_ok_def)
  have "distinct (map fst (map_set k r m))"
    using assms(1) by (simp add: keys_ok_def keys_map_set_present [OF kin])
  moreover have "ident x = j \<and> j < c" if "(j, x) \<in> set (map_set k r m)" for j x
  proof -
    from that set_map_set [of k r m] have "(j, x) = (k, r) \<or> (j, x) \<in> set m" by blast
    then show ?thesis
    proof
      assume "(j, x) = (k, r)"
      with old assms(3) show ?thesis by simp
    next
      assume "(j, x) \<in> set m"
      with assms(1) show ?thesis by (auto simp: keys_ok_def)
    qed
  qed
  ultimately show ?thesis
    unfolding keys_ok_def by blast
qed

lemma keys_ok_delete:
  "keys_ok ident m c \<Longrightarrow> keys_ok ident (snd (map_delete k m)) c"
  by (auto simp: keys_ok_def map_delete_def distinct_map_filter)

lemma keys_ok_mono: "keys_ok ident m c \<Longrightarrow> c \<le> c' \<Longrightarrow> keys_ok ident m c'"
  by (fastforce simp: keys_ok_def)

lemma keys_ok_ids:
  "keys_ok ident m c \<Longrightarrow> map ident (map_values m) = map fst m"
  by (auto simp: keys_ok_def map_values_def)

lemma createGlucoseReading_inv:
  "store_invariant s \<Longrightarrow> store_invariant (snd (createGlucoseReading r s))"
  by (simp add: store_invariant_def createGlucoseReading_def Let_def keys_ok_create)

lemma createMealPlan_inv:
  "store_invariant s \<Longrightarrow> store_invariant (snd (createMealPlan now p s))"
  by (simp add: store_invariant_def createMealPlan_def Let_def keys_ok_create)

lemma createNote_inv:
  "store_invariant s \<Longrightarrow> store_invariant (snd (createNote n s))"
  by (simp add: store_invariant_def createNote_def Let_def keys_ok_create)

lemma demoData_inv: "store_invariant s \<Longrightarrow> store_invariant (demoData now i s)"
  by (simp only: demoData_def Let_def)
     (intro createNote_inv createMealPlan_inv createGlucoseReading_inv)

lemma createUser_inv:
  "store_invariant s \<Longrightarrow> store_invariant (snd (createUser now u s))"
proof -
  assume inv: "store_invariant s"
  let ?user = "\<lparr>u_id = userIdCounter s, u_username = iu_username u, u_email = iu_email u,
                u_password = iu_password u, u_name = iu_name u, u_allergies = iu_allergies u\<rparr>"
  let ?s1 = "s\<lparr>userIdCounter := userIdCounter s + 1,
               users := map_set (userIdCounter s) ?user (users s)\<rparr>"
  have s1: "store_invariant ?s1"
    using inv by (simp add: store_invariant_def keys_ok_create)
  have eq: "snd (createUser now u s) =
      (if userIdCounter s = 1 then demoData now (userIdCounter s) ?s1 else ?s1)"
    by (simp add: createUser_def Let_def)
  have both: "P a \<Longrightarrow> P b \<Longrightarrow> P (if c then a else b)" for P and a b :: MemStorage and c
    by simp
  show ?thesis
    unfolding eq by (rule both [OF demoData_inv [OF s1] s1])
qed

lemma updateUser_inv:
  "store_invariant s \<Longrightarrow> store_invariant (snd (updateUser i u s))"
  by (auto simp: store_invariant_def updateUser_def getUser_def map_get_def Let_def
           split: option.splits intro: keys_ok_update)

lemma updateGlucoseReading_inv:
  "store_invariant s \<Longrightarrow> store_invariant (snd (updateGlucoseReading i u s))"
  by (auto simp: store_invariant_def updateGlucoseReading_def getGlucoseReading_def map_get_def
           Let_def split: option.splits intro: keys_ok_update)

lemma updateMealPlan_inv:
  "store_invariant s \<Longrightarrow> store_invariant (snd (updateMealPlan i u s))"
  by (auto simp: store_invariant_def updateMealPlan_def getMealPlan_def map_get_def Let_def
           split: option.splits intro: keys_ok_update)

lemma updateNote_inv:
  "store_invariant s \<Longrightarrow> store_invariant (snd (updateNote i u s))"
  by (auto simp: store_invariant_def updateNote_def getNote_def map_get_def Let_def
           split: option.splits intro: keys_ok_update)

lemma deleteGlucoseReading_inv:
  "store_invariant s \<Longrightarrow> store_invariant (snd (deleteGlucoseReading i s))"
  using keys_ok_delete [of gr_id "glucoseReadings s" "glucoseIdCounter s" i]
  by (simp add: store_invariant_def deleteGlucoseReading_def split_beta)

lemma deleteMealPlan_inv:
  "store_invariant s \<Longrightarrow> store_invariant (snd (deleteMealPlan i s))"
  using keys_ok_delete [of mp_id "mealPlans s" "mealPlanIdCounter s" i]
  by (simp add: store_invariant_def deleteMealPlan_def split_beta)

lemma deleteNote_inv:
  "store_invariant s \<Longrightarrow> store_invariant (snd (deleteNote i s))"
  using keys_ok_delete [of n_id "notes s" "noteIdCounter s" i]
  by (simp add: store_invariant_def deleteNote_def split_beta)

lemma perform_inv: "store_invariant s \<Longrightarrow> store_invariant (perform oper s)"
  by (cases oper)
     (simp_all add: createUser_inv updateUser_inv createGlucoseReading_inv
        updateGlucoseReading_inv deleteGlucoseReading_inv createMealPlan_inv updateMealPlan_inv
        deleteMealPlan_inv createNote_inv updateNote_inv deleteNote_inv)

lemma emptyStorage_inv: "store_invariant emptyStorage"
  by (simp add: store_invariant_def emptyStorage_def keys_ok_def)

lemma reachable_inv: "reachable s \<Longrightarrow> store_invariant s"
proof (induction rule: reachable.induct)
  case (constructed now)
  show ?case
    unfolding newMemStorage_def by (rule createUser_inv [OF emptyStorage_inv])
next
  case (performed s oper)
  from performed.IH show ?case by (rule perform_inv)
qed

lemma counters_le_refl: "counters_le s s"
  by (simp add: counters_le_def)

lemma counters_le_trans: "counters_le s t \<Longrightarrow> counters_le t u \<Longrightarrow> counters_le s u"
  by (auto simp: counters_le_def)

lemma createGlucoseReading_counters:
  "counters_le s t \<Longrightarrow> counters_le s (snd (createGlucoseReading r t))"
  by (simp add: counters_le_def createGlucoseReading_def Let_def)

lemma createMealPlan_counters:
  "counters_le s t \<Longrightarrow> counters_le s (snd (createMealPlan now p t))"
  by (simp add: counters_le_def createMealPlan_def Let_def)

lemma createNote_counters:
  "counters_le s t \<Longrightarrow> counters_le s (snd (createNote n t))"
  by (simp add: counters_le_def createNote_def Let_def)

lemma demoData_counters: "counters_le s t \<Longrightarrow> counters_le s (demoData now i t)"
  by (simp only: demoData_def Let_def)
     (intro createNote_counters createMealPlan_counters createGlucoseReading_counters)

lemma createUser_counters: "counters_le s (snd (createUser now u s))"
proof -
  let ?user = "\<lparr>u_id = userIdCounter s, u_username = iu_username u, u_email = iu_email u,
                u_password = iu_password u, u_name = iu_name u, u_allergies = iu_allergies u\<rparr>"
  let ?s1 = "s\<lparr>userIdCounter := userIdCounter s + 1,
               users := map_set (userIdCounter s) ?user (users s)\<rparr>"
  have s1: "counters_le s ?s1"
    by (simp add: counters_le_def)
  have eq: "snd (createUser now u s) =
      (if userIdCounter s = 1 then demoData now (userIdCounter s) ?s1 else ?s1)"
    by (simp add: createUser_def Let_def)
  have both: "P a \<Longrightarrow> P b \<Longrightarrow> P (if c then a else b)" for P and a b :: MemStorage and c
    by simp
  show ?thesis
    unfolding eq by (rule both [OF demoData_counters [OF s1] s1])
qed

lemma perform_counters: "counters_le s (perform oper s)"
proof (cases oper)
  case (CreateUser now u)
  then show ?thesis by (simp add: createUser_counters)
next
  case (UpdateUser i u)
  then show ?thesis
    by (simp add: counters_le_def updateUser_def Let_def split: option.splits)
next
  case (CreateGlucoseReading r)
  then show ?thesis by (simp add: createGlucoseReading_counters counters_le_refl)
next
  case (UpdateGlucoseReading i r)
  then show ?thesis
    by (simp add: counters_le_def updateGlucoseReading_def Let_def split: option.splits)
next
  case (DeleteGlucoseReading i)
  then show ?thesis
    by (simp add: counters_le_def deleteGlucoseReading_def split_beta)
next
  case (CreateMealPlan now p)
  then show ?thesis by (simp add: createMealPlan_counters counters_le_refl)
next
  case (UpdateMealPlan i p)
  then show ?thesis
    by (simp add: counters_le_def updateMealPlan_def Let_def split: option.splits)
next
  case (DeleteMealPlan i)
  then show ?thesis
    by (simp add: counters_le_def deleteMealPlan_def split_beta)
next
  case (CreateNote n)
  then show ?thesis by (simp add: createNote_counters counters_le_refl)
next
  case (UpdateNote i n)
  then show ?thesis
    by (simp add: counters_le_def updateNote_def Let_def split: option.splits)
next
  case (DeleteNote i)
  then show ?thesis
    by (simp add: counters_le_def deleteNote_def split_beta)
qed

lemma run_counters: "counters_le s (run ops s)"
proof (induction ops arbitrary: s)
  case Nil
  show ?case by (simp add: run_def counters_le_refl)
next
  case (Cons oper ops)
  have "run (oper # ops) s = run ops (perform oper s)"
    by (simp add: run_def)
  with Cons [of "perform oper s"] perform_counters [of s oper] show ?case
    by (auto intro: counters_le_trans)
qed

lemma keys_ok_below:
  "keys_ok ident m c \<Longrightarrow> r \<in> set (map_values m) \<Longrightarrow> ident r < c"
  by (auto simp: keys_ok_def map_values_def)

lemma keys_ok_distinct_ids:
  "keys_ok ident m c \<Longrightarrow> distinct (map ident (map_values m))"
  by (simp add: keys_ok_ids) (simp add: keys_ok_def)

lemma createGlucoseReading_users:
  "users (snd (createGlucoseReading r s)) = users s \<and>
   userIdCounter (snd (createGlucoseReading r s)) = userIdCounter s"
  by (simp add: createGlucoseReading_def Let_def)

lemma createMealPlan_users:
  "users (snd (createMealPlan now p s)) = users s \<and>
   userIdCounter (snd (createMealPlan now p s)) = userIdCounter s"
  by (simp add: createMealPlan_def Let_def)

lemma createNote_users:
  "users (snd (createNote n s)) = users s \<and>
   userIdCounter (snd (createNote n s)) = userIdCounter s"
  by (simp add: createNote_def Let_def)

lemma demoData_users:
  "users (demoData now i s) = users s \<and> userIdCounter (demoData now i s) = userIdCounter s"
  by (simp only: demoData_def Let_def createGlucoseReading_users createMealPlan_users
        createNote_users)

lemma stored_ids_below_later_creates:
  assumes "reachable s"
  shows "distinct (map u_id (map_values (users s)))
       \<and> distinct (map gr_id (map_values (glucoseReadings s)))
       \<and> distinct (map mp_id (map_values (mealPlans s)))
       \<and> distinct (map n_id (map_values (notes s)))
       \<and> (\<forall>u \<in> set (map_values (users s)).
             u_id u < u_id (fst (createUser now newUser (run ops s))))
       \<and> (\<forall>r \<in> set (map_values (glucoseReadings s)).
             gr_id r < gr_id (fst (createGlucoseReading newReading (run ops s))))
       \<and> (\<forall>p \<in> set (map_values (mealPlans s)).
             mp_id p < mp_id (fst (createMealPlan now newPlan (run ops s))))
       \<and> (\<forall>n \<in> set (map_values (notes s)).
             n_id n < n_id (fst (createNote newNote (run ops s))))"
proof -
  from assms have inv: "store_invariant s" by (rule reachable_inv)
  have le: "counters_le s (run ops s)" by (rule run_counters)
  have "u_id u < u_id (fst (createUser now newUser (run ops s)))"
    if "u \<in> set (map_values (users s))" for u
  proof -
    from inv that have "u_id u < userIdCounter s"
      by (auto simp: store_invariant_def dest: keys_ok_below)
    also from le have "\<dots> \<le> userIdCounter (run ops s)" by (simp add: counters_le_def)
    also have "\<dots> = u_id (fst (createUser now newUser (run ops s)))"
      by (simp add: createUser_def Let_def)
    finally show ?thesis .
  qed
  moreover have "gr_id r < gr_id (fst (createGlucoseReading newReading (run ops s)))"
    if "r \<in> set (map_values (glucoseReadings s))" for r
  proof -
    from inv that have "gr_id r < glucoseIdCounter s"
      by (auto simp: store_invariant_def dest: keys_ok_below)
    also from le have "\<dots> \<le> glucoseIdCounter (run ops s)" by (simp add: counters_le_def)
    also have "\<dots> = gr_id (fst (createGlucoseReading newReading (run ops s)))"
      by (simp add: createGlucoseReading_def Let_def)
    finally show ?thesis .
  qed
  moreover have "mp_id p < mp_id (fst (createMealPlan now newPlan (run ops s)))"
    if "p \<in> set (map_values (mealPlans s))" for p
  proof -
    from inv that have "mp_id p < mealPlanIdCounter s"
      by (auto simp: store_invariant_def dest: keys_ok_below)
    also from le have "\<dots> \<le> mealPlanIdCounter (run ops s)" by (simp add: counters_le_def)
    also have "\<dots> = mp_id (fst (createMealPlan now newPlan (run ops s)))"
      by (simp add: createMealPlan_def Let_def)
    finally show ?thesis .
  qed
  moreover have "n_id n < n_id (fst (createNote newNote (run ops s)))"
    if "n \<in> set (map_values (notes s))" for n
  proof -
    from inv that have "n_id n < noteIdCounter s"
      by (auto simp: store_invariant_def dest: keys_ok_below)
    also from le have "\<dots> \<le> noteIdCounter (run ops s)" by (simp add: counters_le_def)
    also have "\<dots> = n_id (fst (createNote newNote (run ops s)))"
      by (simp add: createNote_def Let_def)
    finally show ?thesis .
  qed
  moreover from inv have "distinct (map u_id (map_values (users s)))"
    "distinct (map gr_id (map_values (glucoseReadings s)))"
    "distinct (map mp_id (map_values (mealPlans s)))"
    "distinct (map n_id (map_values (notes s)))"
    by (auto simp: store_invariant_def intro: keys_ok_distinct_ids)
  ultimately show ?thesis by blast
qed

lemma keys_ok_fresh: "keys_ok ident m c \<Longrightarrow> map_get m c = None"
  by (force simp: keys_ok_def map_get_def map_of_eq_None_iff)

lemma createUser_counter:
  "u_id (fst (createUser now u s)) = userIdCounter s \<and>
   userIdCounter (snd (createUser now u s)) = userIdCounter s + 1"
  by (simp add: createUser_def Let_def demoData_users)

lemma createGlucoseReading_counter:
  "gr_id (fst (createGlucoseReading r s)) = glucoseIdCounter s \<and>
   glucoseIdCounter (snd (createGlucoseReading r s)) = glucoseIdCounter s + 1"
  by (simp add: createGlucoseReading_def Let_def)

lemma createMealPlan_counter:
  "mp_id (fst (createMealPlan now p s)) = mealPlanIdCounter s \<and>
   mealPlanIdCounter (snd (createMealPlan now p s)) = mealPlanIdCounter s + 1"
  by (simp add: createMealPlan_def Let_def)

lemma createNote_counter:
  "n_id (fst (createNote n s)) = noteIdCounter s \<and>
   noteIdCounter (snd (createNote n s)) = noteIdCounter s + 1"
  by (simp add: createNote_def Let_def)

lemma createUser_later:
  "u_id (fst (createUser t u s))
     < u_id (fst (createUser now newUser (run ops (snd (createUser t u s)))))"
proof -
  have "userIdCounter (snd (createUser t u s))
          \<le> userIdCounter (run ops (snd (createUser t u s)))"
    using run_counters [of "snd (createUser t u s)" ops] by (simp add: counters_le_def)
  then show ?thesis by (simp add: createUser_counter)
qed

lemma createGlucoseReading_later:
  "gr_id (fst (createGlucoseReading r s))
     < gr_id (fst (createGlucoseReading newReading
                     (run ops (snd (createGlucoseReading r s)))))"
proof -
  have "glucoseIdCounter (snd (createGlucoseReading r s))
          \<le> glucoseIdCounter (run ops (snd (createGlucoseReading r s)))"
    using run_counters [of "snd (createGlucoseReading r s)" ops] by (simp add: counters_le_def)
  then show ?thesis by (simp add: createGlucoseReading_counter)
qed

lemma createMealPlan_later:
  "mp_id (fst (createMealPlan t p s))
     < mp_id (fst (createMealPlan now newPlan (run ops (snd (createMealPlan t p s)))))"
proof -
  have "mealPlanIdCounter (snd (createMealPlan t p s))
          \<le> mealPlanIdCounter (run ops (snd (createMealPlan t p s)))"
    using run_counters [of "snd (createMealPlan t p s)" ops] by (simp add: counters_le_def)
  then show ?thesis by (simp add: createMealPlan_counter)
qed

lemma createNote_later:
  "n_id (fst (createNote n s))
     < n_id (fst (createNote newNote (run ops (snd (createNote n s)))))"
proof -
  have "noteIdCounter (snd (createNote n s))
          \<le> noteIdCounter (run ops (snd (createNote n s)))"
    using run_counters [of "snd (createNote n s)" ops] by (simp add: counters_le_def)
  then show ?thesis by (simp add: createNote_counter)
qed

lemma createUser_stored:
  "getUser (snd (createUser now u s)) (u_id (fst (createUser now u s)))
     = Some (fst (createUser now u s))"
  by (simp add: createUser_def Let_def demoData_users getUser_def map_get_map_set_same)

lemma createGlucoseReading_stored:
  "getGlucoseReading (snd (createGlucoseReading r s)) (gr_id (fst (createGlucoseReading r s)))
     = Some (fst (createGlucoseReading r s))"
  by (simp add: createGlucoseReading_def Let_def getGlucoseReading_def map_get_map_set_same)

lemma createMealPlan_stored:
  "getMealPlan (snd (createMealPlan now p s)) (mp_id (fst (createMealPlan now p s)))
     = Some (fst (createMealPlan now p s))"
  by (simp add: createMealPlan_def Let_def getMealPlan_def map_get_map_set_same)

lemma createNote_stored:
  "getNote (snd (createNote n s)) (n_id (fst (createNote n s))) = Some (fst (createNote n s))"
  by (simp add: createNote_def Let_def getNote_def map_get_map_set_same)

lemma create_fresh:
  assumes "store_invariant s"
  shows "getUser s (u_id (fst (createUser now u s))) = None"
    and "getGlucoseReading s (gr_id (fst (createGlucoseReading r s))) = None"
    and "getMealPlan s (mp_id (fst (createMealPlan now p s))) = None"
    and "getNote s (n_id (fst (createNote n s))) = None"
  using assms
  by (auto simp: store_invariant_def createUser_counter createGlucoseReading_counter
        createMealPlan_counter createNote_counter getUser_def getGlucoseReading_def
        getMealPlan_def getNote_def intro: keys_ok_fresh)

text \<open>
  C9. In every reachable store the identifiers of each collection are pairwise distinct.
  A record that is in a reachable store has an identifier strictly below the identifier
  that any later create of its collection assigns, whatever operations (deletes among
  them) run in between. A create assigns an identifier that no record of the collection
  has, stores the new record under it, and every later create of the collection,
  whatever runs in between, assigns a strictly greater one: an identifier, once
  assigned, is never assigned again.
\<close>

theorem identifiers_unique_and_never_reused:
  assumes "reachable s"
  shows "distinct (map u_id (map_values (users s)))
       \<and> distinct (map gr_id (map_values (glucoseReadings s)))
       \<and> distinct (map mp_id (map_values (mealPlans s)))
       \<and> distinct (map n_id (map_values (notes s)))
       \<and> (\<forall>u \<in> set (map_values (users s)).
             u_id u < u_id (fst (createUser now newUser (run ops s))))
       \<and> (\<forall>r \<in> set (map_values (glucoseReadings s)).
             gr_id r < gr_id (fst (createGlucoseReading newReading (run ops s))))
       \<and> (\<forall>p \<in> set (map_values (mealPlans s)).
             mp_id p < mp_id (fst (createMealPlan now newPlan (run ops s))))
       \<and> (\<forall>n \<in> set (map_values (notes s)).
             n_id n < n_id (fst (createNote newNote (run ops s))))
       \<and> getUser s (u_id (fst (createUser t firstUser s))) = None
       \<and> getUser (snd (createUser t firstUser s)) (u_id (fst (createUser t firstUser s)))
           = Some (fst (createUser t firstUser s))
       \<and> u_id (fst (createUser t firstUser s))
           < u_id (fst (createUser now newUser (run ops (snd (createUser t firstUser s)))))
       \<and> getGlucoseReading s (gr_id (fst (createGlucoseReading firstReading s))) = None
       \<and> getGlucoseReading (snd (createGlucoseReading firstReading s))
             (gr_id (fst (createGlucoseReading firstReading s)))
           = Some (fst (createGlucoseReading firstReading s))
       \<and> gr_id (fst (createGlucoseReading firstReading s))
           < gr_id (fst (createGlucoseReading newReading
                           (run ops (snd (createGlucoseReading firstReading s)))))
       \<and> getMealPlan s (mp_id (fst (createMealPlan t firstPlan s))) = None
       \<and> getMealPlan (snd (createMealPlan t firstPlan s))
             (mp_id (fst (createMealPlan t firstPlan s)))
           = Some (fst (createMealPlan t firstPlan s))
       \<and> mp_id (fst (createMealPlan t firstPlan s))
           < mp_id (fst (createMealPlan now newPlan
                           (run ops (snd (createMealPlan t firstPlan s)))))
       \<and> getNote s (n_id (fst (createNote firstNote s))) = None
       \<and> getNote (snd (createNote firstNote s)) (n_id (fst (createNote firstNote s)))
           = Some (fst (createNote firstNote s))
       \<and> n_id (fst (createNote firstNote s))
           < n_id (fst (createNote newNote (run ops (snd (createNote firstNote s)))))"
proof -
  from assms have inv: "store_invariant s" by (rule reachable_inv)
  note stored = stored_ids_below_later_creates
    [OF assms, where now = now and newUser = newUser and ops = ops
       and newReading = newReading and newPlan = newPlan and newNote = newNote]
  show ?thesis
    by (intro conjI)
       (use stored in blast,
        use stored in blast, use stored in blast, use stored in blast,
        use stored in blast, use stored in blast, use stored in blast,
        use stored in blast,
        rule create_fresh [OF inv], rule createUser_stored, rule createUser_later,
        rule create_fresh [OF inv], rule createGlucoseReading_stored,
        rule createGlucoseReading_later,
        rule create_fresh [OF inv], rule createMealPlan_stored, rule createMealPlan_later,
        rule create_fresh [OF inv], rule createNote_stored, rule createNote_later)
qed

theorem identifiers_unique_and_never_reused_witness:
  "reachable (newMemStorage 0)
   \<and> map gr_id (map_values (glucoseReadings (newMemStorage 0))) = [1, 2, 3, 4]
   \<and> getGlucoseReading (run [DeleteGlucoseReading 4] (newMemStorage 0)) 4 = None
   \<and> gr_id (fst (createGlucoseReading
         \<lparr>ig_userId = 1, ig_value = 100, ig_timestamp = None, ig_type = ''fasting'',
          ig_note = None\<rparr> (run [DeleteGlucoseReading 4] (newMemStorage 0)))) = 5
   \<and> list_all (\<lambda>r. gr_id r < 5) (map_values (glucoseReadings (newMemStorage 0)))
   \<and> gr_id (fst (createGlucoseReading
         \<lparr>ig_userId = 1, ig_value = 100, ig_timestamp = None, ig_type = ''fasting'',
          ig_note = None\<rparr>
         (run [DeleteGlucoseReading 5]
            (snd (createGlucoseReading
               \<lparr>ig_userId = 1, ig_value = 100, ig_timestamp = None, ig_type = ''fasting'',
                ig_note = None\<rparr> (newMemStorage 0)))))) = 6"
proof -
  let ?new = "\<lparr>ig_userId = 1, ig_value = 100, ig_timestamp = None, ig_type = ''fasting'',
               ig_note = None\<rparr>"
  have reach: "reachable (newMemStorage 0)"
    by (rule reachable.constructed)
  have ids: "map gr_id (map_values (glucoseReadings (newMemStorage 0))) = [1, 2, 3, 4]"
    by code_simp
  have gone: "getGlucoseReading (run [DeleteGlucoseReading 4] (newMemStorage 0)) 4 = None"
    by code_simp
  have fresh: "gr_id (fst (createGlucoseReading ?new
                 (run [DeleteGlucoseReading 4] (newMemStorage 0)))) = 5"
    by code_simp
  from identifiers_unique_and_never_reused
         [OF reach, where ops = "[DeleteGlucoseReading 4]" and newReading = ?new]
  have "\<forall>r \<in> set (map_values (glucoseReadings (newMemStorage 0))).
          gr_id r < gr_id (fst (createGlucoseReading ?new
                      (run [DeleteGlucoseReading 4] (newMemStorage 0))))"
    by blast
  then have "list_all (\<lambda>r. gr_id r < 5) (map_values (glucoseReadings (newMemStorage 0)))"
    by (simp only: fresh list_all_iff)
  moreover have "gr_id (fst (createGlucoseReading ?new
      (run [DeleteGlucoseReading 5] (snd (createGlucoseReading ?new (newMemStorage 0)))))) = 6"
    by code_simp
  ultimately show ?thesis using reach ids gone fresh by blast
qed

subsection \<open>Updating\<close>

lemma updateGlucoseReading_frame:
  assumes "getGlucoseReading s i = Some existing"
    and "updateGlucoseReading i upd s = (result, s')"
  shows "\<exists>updated. result = Some updated
       \<and> gr_id updated = gr_id existing
       \<and> gr_userId updated = (case pg_userId upd of None \<Rightarrow> gr_userId existing | Some v \<Rightarrow> v)
       \<and> gr_value updated = (case pg_value upd of None \<Rightarrow> gr_value existing | Some v \<Rightarrow> v)
       \<and> gr_timestamp updated
           = (case pg_timestamp upd of None \<Rightarrow> gr_timestamp existing | Some v \<Rightarrow> Some v)
       \<and> gr_type updated = (case pg_type upd of None \<Rightarrow> gr_type existing | Some v \<Rightarrow> v)
       \<and> gr_note updated = (case pg_note upd of None \<Rightarrow> gr_note existing | Some v \<Rightarrow> v)
       \<and> getGlucoseReading s' i = Some updated
       \<and> (\<forall>j. j \<noteq> i \<longrightarrow> getGlucoseReading s' j = getGlucoseReading s j)
       \<and> map fst (glucoseReadings s') = map fst (glucoseReadings s)
       \<and> users s' = users s \<and> mealPlans s' = mealPlans s \<and> notes s' = notes s"
proof -
  have kin: "i \<in> set (map fst (glucoseReadings s))"
    using assms(1) by (intro map_get_keys [of _ _ existing]) (simp add: getGlucoseReading_def)
  from assms show ?thesis
    by (auto simp: updateGlucoseReading_def getGlucoseReading_def Let_def spread_def
          map_get_map_set_same map_get_map_set_other keys_map_set_present [OF kin])
qed

lemma updateUser_frame:
  assumes "getUser s i = Some existing"
    and "updateUser i upd s = (result, s')"
  shows "\<exists>updated. result = Some updated
       \<and> u_id updated = u_id existing
       \<and> u_username updated
           = (case pu_username upd of None \<Rightarrow> u_username existing | Some v \<Rightarrow> v)
       \<and> u_email updated = (case pu_email upd of None \<Rightarrow> u_email existing | Some v \<Rightarrow> v)
       \<and> u_password updated
           = (case pu_password upd of None \<Rightarrow> u_password existing | Some v \<Rightarrow> v)
       \<and> u_name updated = (case pu_name upd of None \<Rightarrow> u_name existing | Some v \<Rightarrow> v)
       \<and> u_allergies updated
           = (case pu_allergies upd of None \<Rightarrow> u_allergies existing | Some v \<Rightarrow> v)
       \<and> getUser s' i = Some updated
       \<and> (\<forall>j. j \<noteq> i \<longrightarrow> getUser s' j = getUser s j)
       \<and> map fst (users s') = map fst (users s)
       \<and> glucoseReadings s' = glucoseReadings s \<and> mealPlans s' = mealPlans s
       \<and> notes s' = notes s"
proof -
  have kin: "i \<in> set (map fst (users s))"
    using assms(1) by (intro map_get_keys [of _ _ existing]) (simp add: getUser_def)
  from assms show ?thesis
    by (auto simp: updateUser_def getUser_def Let_def spread_def
          map_get_map_set_same map_get_map_set_other keys_map_set_present [OF kin])
qed

lemma updateMealPlan_frame:
  assumes "getMealPlan s i = Some existing"
    and "updateMealPlan i upd s = (result, s')"
  shows "\<exists>updated. result = Some updated
       \<and> mp_id updated = mp_id existing
       \<and> mp_createdAt updated = mp_createdAt existing
       \<and> mp_userId updated = (case pm_userId upd of None \<Rightarrow> mp_userId existing | Some v \<Rightarrow> v)
       \<and> mp_name updated = (case pm_name upd of None \<Rightarrow> mp_name existing | Some v \<Rightarrow> v)
       \<and> mp_description updated
           = (case pm_description upd of None \<Rightarrow> mp_description existing | Some v \<Rightarrow> v)
       \<and> mp_mealType updated
           = (case pm_mealType upd of None \<Rightarrow> mp_mealType existing | Some v \<Rightarrow> v)
       \<and> mp_imageUrl updated
           = (case pm_imageUrl upd of None \<Rightarrow> mp_imageUrl existing | Some v \<Rightarrow> v)
       \<and> mp_carbs updated = (case pm_carbs upd of None \<Rightarrow> mp_carbs existing | Some v \<Rightarrow> v)
       \<and> mp_servings updated
           = (case pm_servings upd of None \<Rightarrow> mp_servings existing | Some v \<Rightarrow> v)
       \<and> mp_prepTime updated
           = (case pm_prepTime upd of None \<Rightarrow> mp_prepTime existing | Some v \<Rightarrow> v)
       \<and> mp_tags updated = (case pm_tags upd of None \<Rightarrow> mp_tags existing | Some v \<Rightarrow> v)
       \<and> mp_ingredients updated
           = (case pm_ingredients upd of None \<Rightarrow> mp_ingredients existing | Some v \<Rightarrow> v)
       \<and> mp_instructions updated
           = (case pm_instructions upd of None \<Rightarrow> mp_instructions existing | Some v \<Rightarrow> v)
       \<and> getMealPlan s' i = Some updated
       \<and> (\<forall>j. j \<noteq> i \<longrightarrow> getMealPlan s' j = getMealPlan s j)
       \<and> map fst (mealPlans s') = map fst (mealPlans s)
       \<and> users s' = users s \<and> glucoseReadings s' = glucoseReadings s \<and> notes s' = notes s"
proof -
  have kin: "i \<in> set (map fst (mealPlans s))"
    using assms(1) by (intro map_get_keys [of _ _ existing]) (simp add: getMealPlan_def)
  from assms show ?thesis
    by (auto simp: updateMealPlan_def getMealPlan_def Let_def spread_def
          map_get_map_set_same map_get_map_set_other keys_map_set_present [OF kin])
qed

lemma updateNote_frame:
  assumes "getNote s i = Some existing"
    and "updateNote i upd s = (result, s')"
  shows "\<exists>updated. result = Some updated
       \<and> n_id updated = n_id existing
       \<and> n_userId updated = (case pn_userId upd of None \<Rightarrow> n_userId existing | Some v \<Rightarrow> v)
       \<and> n_title updated = (case pn_title upd of None \<Rightarrow> n_title existing | Some v \<Rightarrow> v)
       \<and> n_content updated = (case pn_content upd of None \<Rightarrow> n_content existing | Some v \<Rightarrow> v)
       \<and> n_timestamp updated
           = (case pn_timestamp upd of None \<Rightarrow> n_timestamp existing | Some v \<Rightarrow> Some v)
       \<and> n_category updated
           = (case pn_category upd of None \<Rightarrow> n_category existing | Some v \<Rightarrow> v)
       \<and> getNote s' i = Some updated
       \<and> (\<forall>j. j \<noteq> i \<longrightarrow> getNote s' j = getNote s j)
       \<and> map fst (notes s') = map fst (notes s)
       \<and> users s' = users s \<and> glucoseReadings s' = glucoseReadings s
       \<and> mealPlans s' = mealPlans s"
proof -
  have kin: "i \<in> set (map fst (notes s))"
    using assms(1) by (intro map_get_keys [of _ _ existing]) (simp add: getNote_def)
  from assms show ?thesis
    by (auto simp: updateNote_def getNote_def Let_def spread_def
          map_get_map_set_same map_get_map_set_other keys_map_set_present [OF kin])
qed

text \<open>
  C10. For users, glucose readings, meal plans and notes: an update of an existing
  record returns a record that has the identifier of the existing one (and, for a meal
  plan, its creation time), the supplied value on every supplied field and the existing
  value on every other field. The returned record is then the one stored under the id;
  every other id of the collection has the record it had, the keys of the collection
  and the other three collections are as before.
\<close>

theorem update_changes_only_supplied_fields:
  "(getUser s i = Some existing_u \<and> updateUser i upd_u s = (result_u, s_u) \<longrightarrow>
      (\<exists>updated. result_u = Some updated
           \<and> u_id updated = u_id existing_u
           \<and> u_username updated
              
                     = (case pu_username upd_u of None \<Rightarrow> u_username existing_u | Some v \<Rightarrow> v)
           \<and> u_email updated
                 = (case pu_email upd_u of None \<Rightarrow> u_email existing_u | Some v \<Rightarrow> v)
           \<and> u_password updated
              
                     = (case pu_password upd_u of None \<Rightarrow> u_password existing_u | Some v \<Rightarrow> v)
           \<and> u_name updated
                 = (case pu_name upd_u of None \<Rightarrow> u_name existing_u | Some v \<Rightarrow> v)
           \<and> u_allergies updated
              
                     = (case pu_allergies upd_u of None \<Rightarrow> u_allergies existing_u | Some v \<Rightarrow> v)
           \<and> getUser s_u i = Some updated
           \<and> (\<forall>j. j \<noteq> i \<longrightarrow> getUser s_u j = getUser s j)
           \<and> map fst (users s_u) = map fst (users s)
           \<and> glucoseReadings s_u = glucoseReadings s \<and> mealPlans s_u = mealPlans s
           \<and> notes s_u = notes s))
   \<and> (getGlucoseReading s i = Some existing_g
        \<and> updateGlucoseReading i upd_g s = (result_g, s_g) \<longrightarrow>
      (\<exists>updated. result_g = Some updated
           \<and> gr_id updated = gr_id existing_g
           \<and> gr_userId updated
                 = (case pg_userId upd_g of None \<Rightarrow> gr_userId existing_g | Some v \<Rightarrow> v)
           \<and> gr_value updated
                 = (case pg_value upd_g of None \<Rightarrow> gr_value existing_g | Some v \<Rightarrow> v)
           \<and> gr_timestamp updated
              
                     = (case pg_timestamp upd_g of None \<Rightarrow> gr_timestamp existing_g | Some v \<Rightarrow> Some v)
           \<and> gr_type updated
                 = (case pg_type upd_g of None \<Rightarrow> gr_type existing_g | Some v \<Rightarrow> v)
           \<and> gr_note updated
                 = (case pg_note upd_g of None \<Rightarrow> gr_note existing_g | Some v \<Rightarrow> v)
           \<and> getGlucoseReading s_g i = Some updated
           \<and> (\<forall>j. j \<noteq> i \<longrightarrow> getGlucoseReading s_g j = getGlucoseReading s j)
           \<and> map fst (glucoseReadings s_g) = map fst (glucoseReadings s)
           \<and> users s_g = users s \<and> mealPlans s_g = mealPlans s \<and> notes s_g = notes s))
   \<and> (getMealPlan s i = Some existing_m
        \<and> updateMealPlan i upd_m s = (result_m, s_m) \<longrightarrow>
      (\<exists>updated. result_m = Some updated
           \<and> mp_id updated = mp_id existing_m
           \<and> mp_createdAt updated = mp_createdAt existing_m
           \<and> mp_userId updated
                 = (case pm_userId upd_m of None \<Rightarrow> mp_userId existing_m | Some v \<Rightarrow> v)
           \<and> mp_name updated
                 = (case pm_name upd_m of None \<Rightarrow> mp_name existing_m | Some v \<Rightarrow> v)
           \<and> mp_description updated
              
                     = (case pm_description upd_m of None \<Rightarrow> mp_description existing_m | Some v \<Rightarrow> v)
           \<and> mp_mealType updated
              
                     = (case pm_mealType upd_m of None \<Rightarrow> mp_mealType existing_m | Some v \<Rightarrow> v)
           \<and> mp_imageUrl updated
              
                     = (case pm_imageUrl upd_m of None \<Rightarrow> mp_imageUrl existing_m | Some v \<Rightarrow> v)
           \<and> mp_carbs updated
                 = (case pm_carbs upd_m of None \<Rightarrow> mp_carbs existing_m | Some v \<Rightarrow> v)
           \<and> mp_servings updated
              
                     = (case pm_servings upd_m of None \<Rightarrow> mp_servings existing_m | Some v \<Rightarrow> v)
           \<and> mp_prepTime updated
              
                     = (case pm_prepTime upd_m of None \<Rightarrow> mp_prepTime existing_m | Some v \<Rightarrow> v)
           \<and> mp_tags updated
                 = (case pm_tags upd_m of None \<Rightarrow> mp_tags existing_m | Some v \<Rightarrow> v)
           \<and> mp_ingredients updated
              
                     = (case pm_ingredients upd_m of None \<Rightarrow> mp_ingredients existing_m | Some v \<Rightarrow> v)
           \<and> mp_instructions updated
              
                     = (case pm_instructions upd_m of None \<Rightarrow> mp_instructions existing_m | Some v \<Rightarrow> v)
           \<and> getMealPlan s_m i = Some updated
           \<and> (\<forall>j. j \<noteq> i \<longrightarrow> getMealPlan s_m j = getMealPlan s j)
           \<and> map fst (mealPlans s_m) = map fst (mealPlans s)
           \<and> users s_m = users s \<and> glucoseReadings s_m = glucoseReadings s \<and> notes s_m = notes s))
   \<and> (getNote s i = Some existing_n
        \<and> updateNote i upd_n s = (result_n, s_n) \<longrightarrow>
      (\<exists>updated. result_n = Some updated
           \<and> n_id updated = n_id existing_n
           \<and> n_userId updated
                 = (case pn_userId upd_n of None \<Rightarrow> n_userId existing_n | Some v \<Rightarrow> v)
           \<and> n_title updated
                 = (case pn_title upd_n of None \<Rightarrow> n_title existing_n | Some v \<Rightarrow> v)
           \<and> n_content updated
                 = (case pn_content upd_n of None \<Rightarrow> n_content existing_n | Some v \<Rightarrow> v)
           \<and> n_timestamp updated
              
                     = (case pn_timestamp upd_n of None \<Rightarrow> n_timestamp existing_n | Some v \<Rightarrow> Some v)
           \<and> n_category updated
              
                     = (case pn_category upd_n of None \<Rightarrow> n_category existing_n | Some v \<Rightarrow> v)
           \<and> getNote s_n i = Some updated
           \<and> (\<forall>j. j \<noteq> i \<longrightarrow> getNote s_n j = getNote s j)
           \<and> map fst (notes s_n) = map fst (notes s)
           \<and> users s_n = users s \<and> glucoseReadings s_n = glucoseReadings s
           \<and> mealPlans s_n = mealPlans s))"
  by (intro conjI impI; elim conjE)
     (erule (1) updateUser_frame, erule (1) updateGlucoseReading_frame,
      erule (1) updateMealPlan_frame, erule (1) updateNote_frame)

theorem update_changes_only_supplied_fields_witness:
  "getGlucoseReading twoUsers 2
     = Some \<lparr>gr_id = 2, gr_userId = 1, gr_value = 162, gr_timestamp = Some (- 86400000),
             gr_type = ''after_lunch'', gr_note = Some ''Slightly elevated''\<rparr>
   \<and> fst (updateGlucoseReading 2
          \<lparr>pg_userId = None, pg_value = Some 150, pg_timestamp = None, pg_type = None,
           pg_note = Some None\<rparr> twoUsers)
     = Some \<lparr>gr_id = 2, gr_userId = 1, gr_value = 150, gr_timestamp = Some (- 86400000),
             gr_type = ''after_lunch'', gr_note = None\<rparr>
   \<and> getGlucoseReading (snd (updateGlucoseReading 2
          \<lparr>pg_userId = None, pg_value = Some 150, pg_timestamp = None, pg_type = None,
           pg_note = Some None\<rparr> twoUsers)) 5 = getGlucoseReading twoUsers 5
   \<and> notes (snd (updateGlucoseReading 2
          \<lparr>pg_userId = None, pg_value = Some 150, pg_timestamp = None, pg_type = None,
           pg_note = Some None\<rparr> twoUsers)) = notes twoUsers"
proof -
  let ?old = "\<lparr>gr_id = 2, gr_userId = 1, gr_value = 162, gr_timestamp = Some (- 86400000),
               gr_type = ''after_lunch'', gr_note = Some ''Slightly elevated''\<rparr>"
  let ?upd = "\<lparr>pg_userId = None, pg_value = Some 150, pg_timestamp = None, pg_type = None,
               pg_note = Some None\<rparr>"
  let ?res = "updateGlucoseReading 2 ?upd twoUsers"
  have old: "getGlucoseReading twoUsers 2 = Some ?old"
    by code_simp
  have run: "?res = (fst ?res, snd ?res)"
    by simp
  note frame = update_changes_only_supplied_fields
         [where s = twoUsers and i = 2 and existing_g = ?old and upd_g = ?upd
            and result_g = "fst ?res" and s_g = "snd ?res",
          THEN conjunct2, THEN conjunct1, rule_format]
  from frame [OF conjI [OF old run]]
  obtain updated where "fst ?res = Some updated" and "gr_id updated = 2"
      and "gr_userId updated = 1" and "gr_value updated = 150"
      and "gr_timestamp updated = Some (- 86400000)"
      and "gr_type updated = ''after_lunch''" and "gr_note updated = None"
      and "getGlucoseReading (snd ?res) 5 = getGlucoseReading twoUsers 5"
      and "notes (snd ?res) = notes twoUsers"
    by auto
  with old show ?thesis by simp
qed

subsection \<open>Ownership checks of the handlers\<close>

lemma put_glucose_forbidden:
  "req_user s sess = Some user \<Longrightarrow> getGlucoseReading s i = Some reading \<Longrightarrow>
   gr_userId reading \<noteq> u_id user \<Longrightarrow>
   put_glucose (Some i) b s sess
     = (Response 403 (Message ''Not authorized to update this reading''), s)"
  by (simp add: put_glucose_def)

lemma delete_glucose_forbidden:
  "req_user s sess = Some user \<Longrightarrow> getGlucoseReading s i = Some reading \<Longrightarrow>
   gr_userId reading \<noteq> u_id user \<Longrightarrow>
   delete_glucose (Some i) s sess
     = (Response 403 (Message ''Not authorized to delete this reading''), s)"
  by (simp add: delete_glucose_def)

lemma put_meal_plans_forbidden:
  "req_user s sess = Some user \<Longrightarrow> getMealPlan s i = Some plan \<Longrightarrow>
   mp_userId plan \<noteq> u_id user \<Longrightarrow>
   put_meal_plans (Some i) b s sess
     = (Response 403 (Message ''Not authorized to update this meal plan''), s)"
  by (simp add: put_meal_plans_def)

lemma delete_meal_plans_forbidden:
  "req_user s sess = Some user \<Longrightarrow> getMealPlan s i = Some plan \<Longrightarrow>
   mp_userId plan \<noteq> u_id user \<Longrightarrow>
   delete_meal_plans (Some i) s sess
     = (Response 403 (Message ''Not authorized to delete this meal plan''), s)"
  by (simp add: delete_meal_plans_def)

lemma put_notes_forbidden:
  "req_user s sess = Some user \<Longrightarrow> getNote s i = Some note \<Longrightarrow>
   n_userId note \<noteq> u_id user \<Longrightarrow>
   put_notes (Some i) b s sess
     = (Response 403 (Message ''Not authorized to update this note''), s)"
  by (simp add: put_notes_def)

lemma delete_notes_forbidden:
  "req_user s sess = Some user \<Longrightarrow> getNote s i = Some note \<Longrightarrow>
   n_userId note \<noteq> u_id user \<Longrightarrow>
   delete_notes (Some i) s sess
     = (Response 403 (Message ''Not authorized to delete this note''), s)"
  by (simp add: delete_notes_def)

text \<open>
  C5. For an authenticated session and an existing glucose reading, meal plan or note
  whose owning-user id differs from the id of the session's user, PUT and DELETE answer
  403 and return the store as it was, so the record is unchanged. The answer 404 is
  that of an id without record.
\<close>

theorem foreign_record_is_forbidden_and_unchanged:
  assumes "req_user s sess = Some user"
  shows "(getGlucoseReading s i = Some reading \<and> gr_userId reading \<noteq> u_id user \<longrightarrow>
            status (fst (put_glucose (Some i) gb s sess)) = 403
          \<and> snd (put_glucose (Some i) gb s sess) = s
          \<and> status (fst (delete_glucose (Some i) s sess)) = 403
          \<and> snd (delete_glucose (Some i) s sess) = s)
       \<and> (getMealPlan s i = Some plan \<and> mp_userId plan \<noteq> u_id user \<longrightarrow>
            status (fst (put_meal_plans (Some i) mb s sess)) = 403
          \<and> snd (put_meal_plans (Some i) mb s sess) = s
          \<and> status (fst (delete_meal_plans (Some i) s sess)) = 403
          \<and> snd (delete_meal_plans (Some i) s sess) = s)
       \<and> (getNote s i = Some note \<and> n_userId note \<noteq> u_id user \<longrightarrow>
            status (fst (put_notes (Some i) nb s sess)) = 403
          \<and> snd (put_notes (Some i) nb s sess) = s
          \<and> status (fst (delete_notes (Some i) s sess)) = 403
          \<and> snd (delete_notes (Some i) s sess) = s)
       \<and> (getGlucoseReading s i = None \<longrightarrow>
            status (fst (put_glucose (Some i) gb s sess)) = 404
          \<and> status (fst (delete_glucose (Some i) s sess)) = 404)
       \<and> (getMealPlan s i = None \<longrightarrow>
            status (fst (put_meal_plans (Some i) mb s sess)) = 404
          \<and> status (fst (delete_meal_plans (Some i) s sess)) = 404)
       \<and> (getNote s i = None \<longrightarrow>
            status (fst (put_notes (Some i) nb s sess)) = 404
          \<and> status (fst (delete_notes (Some i) s sess)) = 404)"
proof (intro conjI impI; (elim conjE)?)
  assume "getGlucoseReading s i = Some reading" and "gr_userId reading \<noteq> u_id user"
  with assms show "status (fst (put_glucose (Some i) gb s sess)) = 403"
    and "snd (put_glucose (Some i) gb s sess) = s"
    and "status (fst (delete_glucose (Some i) s sess)) = 403"
    and "snd (delete_glucose (Some i) s sess) = s"
    by (simp_all add: put_glucose_forbidden delete_glucose_forbidden)
next
  assume "getMealPlan s i = Some plan" and "mp_userId plan \<noteq> u_id user"
  with assms show "status (fst (put_meal_plans (Some i) mb s sess)) = 403"
    and "snd (put_meal_plans (Some i) mb s sess) = s"
    and "status (fst (delete_meal_plans (Some i) s sess)) = 403"
    and "snd (delete_meal_plans (Some i) s sess) = s"
    by (simp_all add: put_meal_plans_forbidden delete_meal_plans_forbidden)
next
  assume "getNote s i = Some note" and "n_userId note \<noteq> u_id user"
  with assms show "status (fst (put_notes (Some i) nb s sess)) = 403"
    and "snd (put_notes (Some i) nb s sess) = s"
    and "status (fst (delete_notes (Some i) s sess)) = 403"
    and "snd (delete_notes (Some i) s sess) = s"
    by (simp_all add: put_notes_forbidden delete_notes_forbidden)
next
  assume "getGlucoseReading s i = None"
  with assms show "status (fst (put_glucose (Some i) gb s sess)) = 404"
    and "status (fst (delete_glucose (Some i) s sess)) = 404"
    by (simp_all add: put_glucose_def delete_glucose_def)
next
  assume "getMealPlan s i = None"
  with assms show "status (fst (put_meal_plans (Some i) mb s sess)) = 404"
    and "status (fst (delete_meal_plans (Some i) s sess)) = 404"
    by (simp_all add: put_meal_plans_def delete_meal_plans_def)
next
  assume "getNote s i = None"
  with assms show "status (fst (put_notes (Some i) nb s sess)) = 404"
    and "status (fst (delete_notes (Some i) s sess)) = 404"
    by (simp_all add: put_notes_def delete_notes_def)
qed

theorem foreign_record_is_forbidden_and_unchanged_witness:
  "map_option u_id (req_user twoUsers (Some 2)) = Some 2
   \<and> map_option gr_userId (getGlucoseReading twoUsers 1) = Some 1
   \<and> status (fst (put_glucose (Some 1) (readingRequest 50) twoUsers (Some 2))) = 403
   \<and> snd (put_glucose (Some 1) (readingRequest 50) twoUsers (Some 2)) = twoUsers
   \<and> status (fst (delete_glucose (Some 1) twoUsers (Some 2))) = 403
   \<and> snd (delete_glucose (Some 1) twoUsers (Some 2)) = twoUsers
   \<and> getNote twoUsers 99 = None
   \<and> status (fst (delete_notes (Some 99) twoUsers (Some 2))) = 404"
proof -
  let ?ann = "\<lparr>u_id = 2, u_username = ''ann'', u_email = ''ann@example.com'',
               u_password = ''secret12'', u_name = None, u_allergies = None\<rparr>"
  let ?reading = "\<lparr>gr_id = 1, gr_userId = 1, gr_value = 118, gr_timestamp = Some 0,
                   gr_type = ''before_breakfast'', gr_note = Some ''Normal reading''\<rparr>"
  have user: "req_user twoUsers (Some 2) = Some ?ann"
    by code_simp
  have reading: "getGlucoseReading twoUsers 1 = Some ?reading"
    by code_simp
  have foreign: "gr_userId ?reading \<noteq> u_id ?ann"
    by simp
  have absent: "getNote twoUsers 99 = None"
    by code_simp
  note checked = foreign_record_is_forbidden_and_unchanged [OF user]
  from checked [where i = 1 and reading = ?reading and gb = "readingRequest 50"]
       reading foreign
  have "status (fst (put_glucose (Some 1) (readingRequest 50) twoUsers (Some 2))) = 403"
    and "snd (put_glucose (Some 1) (readingRequest 50) twoUsers (Some 2)) = twoUsers"
    and "status (fst (delete_glucose (Some 1) twoUsers (Some 2))) = 403"
    and "snd (delete_glucose (Some 1) twoUsers (Some 2)) = twoUsers"
    by blast+
  moreover from checked [where i = 99] absent
  have "status (fst (delete_notes (Some 99) twoUsers (Some 2))) = 404"
    by blast
  ultimately show ?thesis
    using absent by (simp add: user reading)
qed

subsection \<open>Registration\<close>

lemma newMemStorage_users:
  "users (newMemStorage now) = [(1, demoStored)] \<and> userIdCounter (newMemStorage now) = 2"
  by (simp add: newMemStorage_def createUser_def Let_def demoData_users emptyStorage_def
        demoUser_def demoStored_def)

lemma lower_demo: "toLowerCase ''demo'' = ''demo''"
  by code_simp

lemma lower_demo_email: "toLowerCase ''demo@example.com'' = ''demo@example.com''"
  by code_simp

lemma getUserByUsername_initial:
  "getUserByUsername (newMemStorage now) username
     = (if toLowerCase username = ''demo'' then Some demoStored else None)"
  by (auto simp: getUserByUsername_def newMemStorage_users map_values_def demoStored_def
        lower_demo)

lemma getUserByEmail_initial:
  "getUserByEmail (newMemStorage now) email
     = (if toLowerCase email = ''demo@example.com'' then Some demoStored else None)"
  by (auto simp: getUserByEmail_def newMemStorage_users map_values_def demoStored_def
        lower_demo_email)

lemma registerSchema_demo:
  "registerSchema demoRegistration
     = Some \<lparr>iu_username = ''demo'', iu_email = ''demo@example.com'',
             iu_password = ''password123'', iu_name = None, iu_allergies = None\<rparr>"
  by code_simp

text \<open>
  The password of three letters \<^verbatim>\<open>e\<close> with acute accent has six bytes and three code
  units: the schema refuses it.
\<close>

lemma registerSchema_counts_code_units:
  "registerSchema
     \<lparr>rb_username = Given ''Ann'', rb_email = Given ''ann@example.com'',
      rb_password = Given [CHR 0xC3, CHR 0xA9, CHR 0xC3, CHR 0xA9, CHR 0xC3, CHR 0xA9],
      rb_name = Absent, rb_allergies = Absent,
      rb_confirmPassword = Given [CHR 0xC3, CHR 0xA9, CHR 0xC3, CHR 0xA9, CHR 0xC3, CHR 0xA9]\<rparr>
     = None"
  by code_simp

lemma register_demo_rejected:
  "post_auth_register t demoRegistration (newMemStorage now) sess
     = (Response 400 (Message ''Username already taken''), newMemStorage now, sess)"
  by (simp add: post_auth_register_def registerSchema_demo getUserByUsername_initial lower_demo)

lemma register_new_accepted:
  assumes "registerSchema b = Some userData"
    and "toLowerCase (iu_username userData) \<noteq> ''demo''"
    and "toLowerCase (iu_email userData) \<noteq> ''demo@example.com''"
  shows "post_auth_register t b (newMemStorage now) sess
     = (Response 201 (UserJson \<lparr>pub_id = 2, pub_username = iu_username userData,
                                 pub_email = iu_email userData, pub_name = iu_name userData,
                                 pub_allergies = iu_allergies userData\<rparr>),
        snd (createUser t userData (newMemStorage now)), Some 2)"
  using assms
  by (simp add: post_auth_register_def getUserByUsername_initial getUserByEmail_initial
        createUser_def Let_def newMemStorage_users userWithoutPassword_def split_beta)

lemma register_new_stored:
  assumes "registerSchema b = Some userData"
  shows "getUser (snd (createUser t userData (newMemStorage now))) 2
     = Some \<lparr>u_id = 2, u_username = iu_username userData, u_email = iu_email userData,
             u_password = iu_password userData, u_name = iu_name userData,
             u_allergies = iu_allergies userData\<rparr>"
  by (simp add: createUser_def Let_def newMemStorage_users getUser_def map_get_def)

text \<open>
  C2, as the code has it. The constructor has stored the user demo with the address
  demo@example.com, so from the initial store the registration of the scenario is
  answered 400 "Username already taken", and store and session stay as they were. A
  registration that passes \<^verbatim>\<open>registerSchema\<close> and whose username and email are not
  those of the stored user, compared in lower case, is answered 201 with the new user,
  who has the id 2, without the password; the user is stored and the session is bound
  to the id.
\<close>

theorem registration_from_initial_store:
  "post_auth_register t demoRegistration (newMemStorage now) sess
     = (Response 400 (Message ''Username already taken''), newMemStorage now, sess)
   \<and> (registerSchema b = Some userData
        \<and> toLowerCase (iu_username userData) \<noteq> ''demo''
        \<and> toLowerCase (iu_email userData) \<noteq> ''demo@example.com'' \<longrightarrow>
        post_auth_register t b (newMemStorage now) sess
          = (Response 201 (UserJson \<lparr>pub_id = 2, pub_username = iu_username userData,
                 pub_email = iu_email userData, pub_name = iu_name userData,
                 pub_allergies = iu_allergies userData\<rparr>),
             snd (createUser t userData (newMemStorage now)), Some 2)
        \<and> getUser (snd (createUser t userData (newMemStorage now))) 2
          = Some \<lparr>u_id = 2, u_username = iu_username userData, u_email = iu_email userData,
                  u_password = iu_password userData, u_name = iu_name userData,
                  u_allergies = iu_allergies userData\<rparr>)"
  using register_demo_rejected register_new_accepted register_new_stored by blast

theorem registration_from_initial_store_witness:
  "registerSchema \<lparr>rb_username = Given ''Ann'', rb_email = Given ''ann@example.com'',
       rb_password = Given ''secret12'', rb_name = Absent, rb_allergies = Given None,
       rb_confirmPassword = Given ''secret12''\<rparr>
     = Some \<lparr>iu_username = ''Ann'', iu_email = ''ann@example.com'', iu_password = ''secret12'',
             iu_name = None, iu_allergies = None\<rparr>
   \<and> toLowerCase ''Ann'' \<noteq> ''demo''
   \<and> toLowerCase ''ann@example.com'' \<noteq> ''demo@example.com''
   \<and> fst (post_auth_register 3
         \<lparr>rb_username = Given ''Ann'', rb_email = Given ''ann@example.com'',
          rb_password = Given ''secret12'', rb_name = Absent, rb_allergies = Given None,
          rb_confirmPassword = Given ''secret12''\<rparr> (newMemStorage 0) None)
     = Response 201 (UserJson \<lparr>pub_id = 2, pub_username = ''Ann'',
         pub_email = ''ann@example.com'', pub_name = None, pub_allergies = None\<rparr>)"
proof -
  let ?body = "\<lparr>rb_username = Given ''Ann'', rb_email = Given ''ann@example.com'',
       rb_password = Given ''secret12'', rb_name = Absent, rb_allergies = Given None,
       rb_confirmPassword = Given ''secret12''\<rparr>"
  let ?data = "\<lparr>iu_username = ''Ann'', iu_email = ''ann@example.com'',
       iu_password = ''secret12'', iu_name = None, iu_allergies = None\<rparr>"
  have parsed: "registerSchema ?body = Some ?data"
    by code_simp
  have name: "toLowerCase (iu_username ?data) \<noteq> ''demo''"
    by code_simp
  have email: "toLowerCase (iu_email ?data) \<noteq> ''demo@example.com''"
    by code_simp
  from registration_from_initial_store
         [where b = ?body and userData = ?data and t = 3 and now = 0 and sess = None]
       parsed name email
  have "post_auth_register 3 ?body (newMemStorage 0) None
     = (Response 201 (UserJson \<lparr>pub_id = 2, pub_username = iu_username ?data,
            pub_email = iu_email ?data, pub_name = iu_name ?data,
            pub_allergies = iu_allergies ?data\<rparr>),
        snd (createUser 3 ?data (newMemStorage 0)), Some 2)"
    by blast
  with parsed name email show ?thesis by simp
qed

text \<open>
  The registration of the scenario, sent to the store that the constructor leaves, is
  answered 400 and not 201.
\<close>

theorem demo_registration_is_rejected:
  "post_auth_register 0 demoRegistration (newMemStorage 0) None
     = (Response 400 (Message ''Username already taken''), newMemStorage 0, None)
   \<and> status (fst (post_auth_register 0 demoRegistration (newMemStorage 0) None)) \<noteq> 201"
  by (simp add: register_demo_rejected)

subsection \<open>Creating a glucose reading over HTTP\<close>

lemma post_glucose_accepts:
  assumes "req_user s sess = Some user" and "integer_column (u_id user)"
    and "gb_type b = Given ty" and "optional_ok anything (gb_timestamp b)"
    and "optional_ok (nullable anything) (gb_note b)"
    and "gb_value b = Given v" and "integer_column v"
  shows "\<exists>r s'. post_glucose b s sess = (Response 201 (ReadingJson r), s')
           \<and> gr_value r = v \<and> gr_userId r = u_id user \<and> gr_type r = ty
           \<and> getGlucoseReading s' (gr_id r) = Some r"
  using assms
  by (simp add: post_glucose_def insertGlucoseReadingSchema_def createGlucoseReading_def
        Let_def getGlucoseReading_def map_get_map_set_same)

lemma post_glucose_rejects_missing_value:
  assumes "req_user s sess = Some user"
    and "gb_value b = Absent \<or> gb_value b = Ill"
  shows "post_glucose b s sess = (Response 400 InvalidRequestData, s)"
  using assms
  by (auto simp: post_glucose_def insertGlucoseReadingSchema_def split: field.splits)

lemma req_user_initial: "req_user (newMemStorage now) (Some 1) = Some demoStored"
  by (simp add: req_user_def getUser_def map_get_def newMemStorage_users)

text \<open>
  C1, as the code has it. POST /api/glucose checks the value against
  \<^verbatim>\<open>insertGlucoseReadingSchema\<close>, which asks for an integer of the column and has no
  range of its own: for an authenticated user and a body whose other keys are valid,
  every such integer, so every value from 20 to 600 and also 19 or 601, passes, the
  answer is 201 and the reading is stored with that value. A body without an integer
  value is answered 400 and nothing is stored. The range from 20 to 600 is what the
  form of the client checks before it sends the request.
\<close>

theorem post_glucose_checks_no_range:
  assumes "req_user s sess = Some user" and "integer_column (u_id user)"
    and "gb_type b = Given ty" and "optional_ok anything (gb_timestamp b)"
    and "optional_ok (nullable anything) (gb_note b)"
  shows "(gb_value b = Given v \<and> integer_column v \<longrightarrow>
            (\<exists>r s'. post_glucose b s sess = (Response 201 (ReadingJson r), s')
                \<and> gr_value r = v \<and> gr_userId r = u_id user \<and> gr_type r = ty
                \<and> getGlucoseReading s' (gr_id r) = Some r))
       \<and> (20 \<le> v \<and> v \<le> 600 \<longrightarrow> integer_column v)
       \<and> (gb_value b = Absent \<or> gb_value b = Ill \<longrightarrow>
            post_glucose b s sess = (Response 400 InvalidRequestData, s))
       \<and> (glucoseFormSchema_value v \<longleftrightarrow> 20 \<le> v \<and> v \<le> 600)"
proof (intro conjI impI)
  assume "gb_value b = Given v \<and> integer_column v"
  with assms show "\<exists>r s'. post_glucose b s sess = (Response 201 (ReadingJson r), s')
                \<and> gr_value r = v \<and> gr_userId r = u_id user \<and> gr_type r = ty
                \<and> getGlucoseReading s' (gr_id r) = Some r"
    by (intro post_glucose_accepts) simp_all
next
  assume "20 \<le> v \<and> v \<le> 600"
  then show "integer_column v" by (simp add: integer_column_def)
next
  assume "gb_value b = Absent \<or> gb_value b = Ill"
  with assms(1) show "post_glucose b s sess = (Response 400 InvalidRequestData, s)"
    by (rule post_glucose_rejects_missing_value)
next
  show "glucoseFormSchema_value v \<longleftrightarrow> 20 \<le> v \<and> v \<le> 600"
    by (simp add: glucoseFormSchema_value_def)
qed

theorem post_glucose_checks_no_range_witness:
  "req_user (newMemStorage 0) (Some 1) = Some demoStored
   \<and> gb_value (readingRequest 118) = Given 118
   \<and> integer_column 118
   \<and> (\<exists>r s'. post_glucose (readingRequest 118) (newMemStorage 0) (Some 1)
                 = (Response 201 (ReadingJson r), s')
          \<and> gr_value r = 118 \<and> gr_userId r = 1 \<and> gr_type r = ''before_breakfast''
          \<and> getGlucoseReading s' (gr_id r) = Some r)"
proof -
  have user: "req_user (newMemStorage 0) (Some 1) = Some demoStored"
    by (rule req_user_initial)
  have ident: "integer_column (u_id demoStored)"
    by (simp add: integer_column_def demoStored_def)
  have ty: "gb_type (readingRequest 118) = Given ''before_breakfast''"
    by (simp add: readingRequest_def)
  have ts: "optional_ok anything (gb_timestamp (readingRequest 118))"
    by (simp add: readingRequest_def optional_ok_def)
  have nt: "optional_ok (nullable anything) (gb_note (readingRequest 118))"
    by (simp add: readingRequest_def optional_ok_def)
  have v: "gb_value (readingRequest 118) = Given 118"
    by (simp add: readingRequest_def)
  have col: "integer_column 118"
    by (simp add: integer_column_def)
  from post_glucose_checks_no_range [OF user ident ty ts nt, of 118] v col
  have "\<exists>r s'. post_glucose (readingRequest 118) (newMemStorage 0) (Some 1)
                 = (Response 201 (ReadingJson r), s')
          \<and> gr_value r = 118 \<and> gr_userId r = u_id demoStored
          \<and> gr_type r = ''before_breakfast''
          \<and> getGlucoseReading s' (gr_id r) = Some r"
    by blast
  with user v col show ?thesis
    by (simp add: demoStored_def)
qed

text \<open>
  The value 601 is outside the range from 20 to 600; the request that carries it is
  answered 201, and the reading is in the store afterwards.
\<close>

theorem value_outside_range_is_stored:
  "\<not> (20 \<le> (601::int) \<and> (601::int) \<le> 600)
   \<and> fst (post_glucose (readingRequest 601) (newMemStorage 0) (Some 1))
       = Response 201 (ReadingJson \<lparr>gr_id = 5, gr_userId = 1, gr_value = 601,
            gr_timestamp = None, gr_type = ''before_breakfast'', gr_note = None\<rparr>)
   \<and> getGlucoseReading (newMemStorage 0) 5 = None
   \<and> getGlucoseReading (snd (post_glucose (readingRequest 601) (newMemStorage 0) (Some 1))) 5
       = Some \<lparr>gr_id = 5, gr_userId = 1, gr_value = 601, gr_timestamp = None,
               gr_type = ''before_breakfast'', gr_note = None\<rparr>"
  by code_simp

text \<open>
  C3. What the code does when the input has no timestamp: the reading that
  \<^verbatim>\<open>createGlucoseReading\<close> builds and stores has none either. So the request
  \<^verbatim>\<open>{value: 118, type: "before_breakfast"}\<close> is answered 201 with a reading without
  timestamp, and that is the stored one. \<^verbatim>\<open>createMealPlan\<close>, next to it, does fill
  the creation time from the clock.
\<close>

theorem reading_created_without_timestamp_has_none:
  "gr_timestamp (fst (createGlucoseReading (reading\<lparr>ig_timestamp := None\<rparr>) s)) = None
   \<and> fst (post_glucose (readingRequest 118) (newMemStorage 1000) (Some 1))
       = Response 201 (ReadingJson \<lparr>gr_id = 5, gr_userId = 1, gr_value = 118,
            gr_timestamp = None, gr_type = ''before_breakfast'', gr_note = None\<rparr>)
   \<and> map_option gr_timestamp
         (getGlucoseReading (snd (post_glucose (readingRequest 118) (newMemStorage 1000) (Some 1))) 5)
       = Some None
   \<and> mp_createdAt (fst (createMealPlan now (plan\<lparr>im_createdAt := None\<rparr>) s)) = now"
proof (intro conjI)
  show "gr_timestamp (fst (createGlucoseReading (reading\<lparr>ig_timestamp := None\<rparr>) s)) = None"
    by (simp add: createGlucoseReading_def Let_def)
  show "fst (post_glucose (readingRequest 118) (newMemStorage 1000) (Some 1))
       = Response 201 (ReadingJson \<lparr>gr_id = 5, gr_userId = 1, gr_value = 118,
            gr_timestamp = None, gr_type = ''before_breakfast'', gr_note = None\<rparr>)"
    by code_simp
  show "map_option gr_timestamp
         (getGlucoseReading (snd (post_glucose (readingRequest 118) (newMemStorage 1000) (Some 1))) 5)
       = Some None"
    by code_simp
  show "mp_createdAt (fst (createMealPlan now (plan\<lparr>im_createdAt := None\<rparr>) s)) = now"
    by (simp add: createMealPlan_def Let_def)
qed

end
